theory Spec2Isabelle
  imports Main
begin

section \<open>Python values and exceptions\<close>

text \<open>
  The handlers of \<^verbatim>\<open>zoom_handlers.py\<close> work on JSON-decoded values: \<^verbatim>\<open>None\<close>, booleans,
  integers, strings, lists and dictionaries. A dictionary is an association list in which
  the first binding of a key is the one \<^verbatim>\<open>get\<close> sees. Floating-point numbers are left out.
  Strings are lists of 8-bit characters, so the model covers the code points below 256.
\<close>

datatype json =
    JNull
  | JBool bool
  | JInt int
  | JStr string
  | JArr "json list"
  | JObj "(string \<times> json) list"

text \<open>
  Exceptions are values. Each carries the text \<^verbatim>\<open>str(e)\<close> gives. \<open>HTTPError\<close> is
  \<^verbatim>\<open>requests.exceptions.HTTPError\<close>, raised by \<^verbatim>\<open>raise_for_status\<close>: it carries the status code
  of its response and what \<^verbatim>\<open>json.loads(response.text)\<close> yields (\<open>Inr\<close> the decoded value,
  \<open>Inl\<close> the message of the decoding error). \<open>RequestException\<close> stands for every other
  exception of \<^verbatim>\<open>requests\<close> (connection failure, timeout, an undecodable body of a successful
  response): the network-level failures that are not HTTP-status errors. \<open>Unauthorized\<close> is
  what \<^verbatim>\<open>abort(401)\<close> raises.
\<close>

datatype exn =
    HTTPError int "string + json" string
  | RequestException string
  | ValueError string
  | KeyError string
  | TypeError string
  | AttributeError string
  | IndexError string
  | Unauthorized string

fun str_exn :: "exn \<Rightarrow> string" where
  "str_exn (HTTPError status body m) = m"
| "str_exn (RequestException m) = m"
| "str_exn (ValueError m) = m"
| "str_exn (KeyError m) = m"
| "str_exn (TypeError m) = m"
| "str_exn (AttributeError m) = m"
| "str_exn (IndexError m) = m"
| "str_exn (Unauthorized m) = m"

section \<open>String operations of Python used by the parser\<close>

definition crlf :: string where
  "crlf = [CHR 0x0D, CHR 0x0A]"

definition arrow :: string where
  "arrow = '' --> ''"

text \<open>
  \<^verbatim>\<open>s.split(sep)\<close> for a non-empty separator, which is also what \<^verbatim>\<open>re.split\<close> does for a
  pattern that is a literal without groups: the string is cut at the leftmost occurrences of
  the separator, which do not overlap. Every call site passes a non-empty constant.
\<close>

fun py_split :: "string \<Rightarrow> string \<Rightarrow> string list" where
  "py_split sep [] = [[]]"
| "py_split sep (c # cs) =
     (if sep \<noteq> [] \<and> take (length sep) (c # cs) = sep
      then [] # py_split sep (drop (length sep - 1) cs)
      else (case py_split sep cs of
              [] \<Rightarrow> [[c]]
            | p # ps \<Rightarrow> (c # p) # ps))"

text \<open>\<^verbatim>\<open>sep.join(parts)\<close>.\<close>

fun py_join :: "string \<Rightarrow> string list \<Rightarrow> string" where
  "py_join sep [] = []"
| "py_join sep [p] = p"
| "py_join sep (p # q # ps) = p @ sep @ py_join sep (q # ps)"

text \<open>
  The characters \<^verbatim>\<open>str.strip()\<close> removes, among the code points below 256: tab, line feed,
  vertical tab, form feed, carriage return, the four separators 0x1C to 0x1F, space, 0x85
  and 0xA0.
\<close>

definition is_space :: "char \<Rightarrow> bool" where
  "is_space c = (c \<in> set [CHR 0x09, CHR 0x0A, CHR 0x0B, CHR 0x0C, CHR 0x0D, CHR 0x1C,
                           CHR 0x1D, CHR 0x1E, CHR 0x1F, CHR 0x20, CHR 0x85, CHR 0xA0])"

definition py_strip :: "string \<Rightarrow> string" where
  "py_strip s = rev (dropWhile is_space (rev (dropWhile is_space s)))"

text \<open>
  \<^verbatim>\<open>str.upper()\<close>, as far as the comparison with \<^verbatim>\<open>"WEBVTT"\<close> can see it: the letters a to z
  are mapped to A to Z. Below 256 no other character has an upper-case form made of the
  letters of \<^verbatim>\<open>WEBVTT\<close>, so leaving the others alone does not change the comparison.
\<close>

definition upper_char :: "char \<Rightarrow> char" where
  "upper_char c =
     (let n = (of_char c :: nat) in if 97 \<le> n \<and> n \<le> 122 then char_of (n - 32) else c)"

definition py_upper :: "string \<Rightarrow> string" where
  "py_upper s = map upper_char s"

text \<open>\<^verbatim>\<open>xs[i]\<close> for a non-negative index: out of range raises.\<close>

definition py_index :: "'a list \<Rightarrow> nat \<Rightarrow> exn + 'a" where
  "py_index xs i =
     (if i < length xs then Inr (xs ! i) else Inl (IndexError ''list index out of range''))"

text \<open>\<^verbatim>\<open>a, b = xs\<close>: unpacking a list into two names raises unless it has two elements.\<close>

fun unpack2 :: "'a list \<Rightarrow> exn + ('a \<times> 'a)" where
  "unpack2 [a, b] = Inr (a, b)"
| "unpack2 [] = Inl (ValueError ''not enough values to unpack (expected 2, got 0)'')"
| "unpack2 [a] = Inl (ValueError ''not enough values to unpack (expected 2, got 1)'')"
| "unpack2 (a # b # c # xs) = Inl (ValueError ''too many values to unpack (expected 2)'')"

section \<open>The caption parser: \<^verbatim>\<open>webvtt_to_json\<close>\<close>

definition caption_obj :: "string \<Rightarrow> string \<Rightarrow> string \<Rightarrow> string \<Rightarrow> json" where
  "caption_obj index start end text =
     JObj [(''index'', JStr index), (''start'', JStr start), (''end'', JStr end),
           (''text'', JStr text)]"

text \<open>
  The body of \<^verbatim>\<open>for caption in captions\<close>, with \<open>json_data\<close> as the accumulator. Only
  the unpacking of the timing line is inside the \<^verbatim>\<open>try\<close>, and only a \<open>ValueError\<close> is
  caught there.
\<close>

fun caption_loop :: "string list \<Rightarrow> json list \<Rightarrow> exn + json list" where
  "caption_loop [] json_data = Inr json_data"
| "caption_loop (caption # captions) json_data =
     (if py_upper (py_strip caption) = ''WEBVTT'' then caption_loop captions json_data
      else
        let lines = py_split crlf caption in
        if 3 \<le> length lines then
          (case py_index lines 0 of
             Inl e \<Rightarrow> Inl e
           | Inr index \<Rightarrow>
          (case py_index lines 1 of
             Inl e \<Rightarrow> Inl e
           | Inr timing \<Rightarrow>
          (let text = py_join '' '' (drop 2 lines) in
           case unpack2 (py_split arrow timing) of
             Inl (ValueError m) \<Rightarrow> caption_loop captions json_data
           | Inl e \<Rightarrow> Inl e
           | Inr (start, end) \<Rightarrow>
               caption_loop captions (json_data @ [caption_obj index start end text]))))
        else caption_loop captions json_data)"

text \<open>
  \<^verbatim>\<open>webvtt_to_json\<close> returns \<^verbatim>\<open>json.dumps(json_data)\<close> and both callers apply
  \<^verbatim>\<open>json.loads\<close> to it at once; the model returns \<open>json_data\<close> itself.
\<close>

definition webvtt_to_json :: "string \<Rightarrow> exn + json list" where
  "webvtt_to_json webvtt_content =
     caption_loop (py_split (crlf @ crlf) (py_strip webvtt_content)) []"

section \<open>Operations of Python on JSON values\<close>

text \<open>The apostrophe, which the messages of Python's exceptions put around names.\<close>

definition apos :: string where
  "apos = [CHR 0x27]"

fun py_type_name :: "json \<Rightarrow> string" where
  "py_type_name JNull = ''NoneType''"
| "py_type_name (JBool b) = ''bool''"
| "py_type_name (JInt i) = ''int''"
| "py_type_name (JStr s) = ''str''"
| "py_type_name (JArr xs) = ''list''"
| "py_type_name (JObj kvs) = ''dict''"

text \<open>The truth value of an object, as \<^verbatim>\<open>if x\<close>, \<^verbatim>\<open>not x\<close> and \<^verbatim>\<open>x and y\<close> test it.\<close>

fun py_truthy :: "json \<Rightarrow> bool" where
  "py_truthy JNull = False"
| "py_truthy (JBool b) = b"
| "py_truthy (JInt i) = (i \<noteq> 0)"
| "py_truthy (JStr s) = (s \<noteq> [])"
| "py_truthy (JArr xs) = (xs \<noteq> [])"
| "py_truthy (JObj kvs) = (kvs \<noteq> [])"

text \<open>\<^verbatim>\<open>obj.get(key, default)\<close>: only a dictionary has the method.\<close>

fun py_get :: "json \<Rightarrow> string \<Rightarrow> json \<Rightarrow> exn + json" where
  "py_get (JObj kvs) key dflt =
     (case map_of kvs key of Some v \<Rightarrow> Inr v | None \<Rightarrow> Inr dflt)"
| "py_get obj key dflt =
     Inl (AttributeError (apos @ py_type_name obj @ apos @ '' object has no attribute '' @
                          apos @ ''get'' @ apos))"

text \<open>\<^verbatim>\<open>obj[key]\<close> with a string key.\<close>

fun py_subscript :: "json \<Rightarrow> string \<Rightarrow> exn + json" where
  "py_subscript (JObj kvs) key =
     (case map_of kvs key of Some v \<Rightarrow> Inr v | None \<Rightarrow> Inl (KeyError (apos @ key @ apos)))"
| "py_subscript (JArr xs) key =
     Inl (TypeError ''list indices must be integers or slices, not str'')"
| "py_subscript (JStr s) key =
     Inl (TypeError (''string indices must be integers, not '' @ apos @ ''str'' @ apos))"
| "py_subscript obj key =
     Inl (TypeError (apos @ py_type_name obj @ apos @ '' object is not subscriptable''))"

text \<open>
  Iterating over a value, as \<^verbatim>\<open>for x in v\<close> and \<^verbatim>\<open>list.extend(v)\<close> do: a list gives its
  elements, a string its characters, a dictionary its keys.
\<close>

fun py_iter :: "json \<Rightarrow> exn + json list" where
  "py_iter (JArr xs) = Inr xs"
| "py_iter (JStr s) = Inr (map (\<lambda>c. JStr [c]) s)"
| "py_iter (JObj kvs) = Inr (map JStr (remdups (map fst kvs)))"
| "py_iter obj = Inl (TypeError (apos @ py_type_name obj @ apos @ '' object is not iterable''))"

text \<open>\<^verbatim>\<open>len(v)\<close>.\<close>

fun py_len :: "json \<Rightarrow> exn + nat" where
  "py_len (JArr xs) = Inr (length xs)"
| "py_len (JStr s) = Inr (length s)"
| "py_len (JObj kvs) = Inr (length (remdups (map fst kvs)))"
| "py_len obj =
     Inl (TypeError (''object of type '' @ apos @ py_type_name obj @ apos @ '' has no len()''))"

text \<open>
  \<^verbatim>\<open>str(v)\<close>, which is also how an f-string formats \<open>v\<close>. The text of a list or of a
  dictionary is built by \<^verbatim>\<open>repr\<close>, which is a parameter here.
\<close>

function str_nat :: "nat \<Rightarrow> string" where
  "str_nat n =
     (if n < 10 then [''0123456789'' ! n]
      else str_nat (n div 10) @ [''0123456789'' ! (n mod 10)])"
  by pat_completeness auto
termination
  by (relation "measure id") auto

definition str_int :: "int \<Rightarrow> string" where
  "str_int i = (if i < 0 then ''-'' @ str_nat (nat (- i)) else str_nat (nat i))"

fun py_str :: "(json \<Rightarrow> string) \<Rightarrow> json \<Rightarrow> string" where
  "py_str repr JNull = ''None''"
| "py_str repr (JBool b) = (if b then ''True'' else ''False'')"
| "py_str repr (JInt i) = str_int i"
| "py_str repr (JStr s) = s"
| "py_str repr obj = repr obj"

text \<open>
  \<^verbatim>\<open>timedelta(seconds=v)\<close> in microseconds: an integer (or a boolean, which is one) is
  accepted, anything else raises. The range limits of \<^verbatim>\<open>datetime\<close> are not modelled.
\<close>

fun timedelta_seconds :: "json \<Rightarrow> exn + int" where
  "timedelta_seconds (JInt n) = Inr (n * 1000000)"
| "timedelta_seconds (JBool b) = Inr (if b then 1000000 else 0)"
| "timedelta_seconds obj =
     Inl (TypeError (''unsupported type for timedelta seconds component: '' @ py_type_name obj))"

declare str_nat.simps [simp del]

section \<open>The environment of the handlers\<close>

text \<open>
  Modelled from the spec: \<^verbatim>\<open>ZoomClientConfig\<close> of \<^verbatim>\<open>src.models\<close>, the configuration store of
  section 6, which supplies the account id, the client id, the client secret, whether an
  access key is required and the access key. The fields carry the names the handlers read.
\<close>

record zoom_config =
  zoom_account_id :: string
  zoom_client_id :: string
  zoom_client_secret :: string
  require_access_key :: bool
  access_key :: string

text \<open>
  A \<^verbatim>\<open>datetime\<close> is a number of microseconds, counted from 2020-01-01 00:00, the
  \<open>start_date\<close> of the window scan.
\<close>

type_synonym datetime = int

definition start_date :: datetime where
  "start_date = 0"

definition days30 :: int where
  "days30 = 30 * 86400 * 1000000"

text \<open>
  What the handlers do to the world outside, in the order they do it: reading the
  configuration table, posting to the token endpoint, calling the API, downloading a file.
\<close>

datatype event =
    QueryFirst
  | QueryGet
  | TokenPost "(string \<times> string) list"
  | ApiRequest string string string "(string \<times> json) list option"
  | Download json string

text \<open>
  The world answers each effect. Every answer may depend on \<open>tick\<close>, the number of
  effects performed so far, so the clock advances, the configuration can change and the
  same request can be answered differently later on.
  \<^item> \<open>clock\<close>: \<^verbatim>\<open>datetime.now()\<close>;
  \<^item> \<open>query_first\<close>, \<open>query_get\<close>: \<^verbatim>\<open>ZoomClientConfig.query.first()\<close> and \<^verbatim>\<open>.query.get(1)\<close>;
  \<^item> \<open>header_key\<close>: \<^verbatim>\<open>request.headers.get("X-Access-Key")\<close>;
  \<^item> \<open>token_endpoint\<close>: \<^verbatim>\<open>requests.post(TOKEN_URL, data=data)\<close> followed by
    \<^verbatim>\<open>raise_for_status()\<close> and \<^verbatim>\<open>json()\<close>: the decoded body, or the exception raised;
  \<^item> \<open>api\<close>: \<^verbatim>\<open>requests.request(method, url, headers, params)\<close> followed by
    \<^verbatim>\<open>raise_for_status()\<close> and \<^verbatim>\<open>json()\<close>, given the method, the URL, the
    \<^verbatim>\<open>Authorization\<close> header and the query parameters;
  \<^item> \<open>download\<close>: \<^verbatim>\<open>requests.get(url, headers)\<close> followed by \<^verbatim>\<open>raise_for_status()\<close> and
    \<^verbatim>\<open>text\<close>, given the URL and the \<^verbatim>\<open>Authorization\<close> header;
  \<^item> \<open>strftime_ymd\<close>: \<^verbatim>\<open>d.strftime("%Y-%m-%d")\<close>;
  \<^item> \<open>py_repr\<close>: \<^verbatim>\<open>repr\<close> on lists and dictionaries.
  Logging is not modelled: \<^verbatim>\<open>logger.log\<close> returns nothing the handlers use. What the
  arguments of a logging call can raise is kept.
\<close>

record world =
  clock :: "nat \<Rightarrow> datetime"
  query_first :: "nat \<Rightarrow> zoom_config option"
  query_get :: "nat \<Rightarrow> zoom_config option"
  header_key :: "string option"
  token_endpoint :: "nat \<Rightarrow> (string \<times> string) list \<Rightarrow> exn + json"
  api :: "nat \<Rightarrow> string \<Rightarrow> string \<Rightarrow> string \<Rightarrow> (string \<times> json) list option \<Rightarrow> exn + json"
  download :: "nat \<Rightarrow> json \<Rightarrow> string \<Rightarrow> exn + string"
  strftime_ymd :: "datetime \<Rightarrow> string"
  py_repr :: "json \<Rightarrow> string"

record env =
  tick :: nat
  trace :: "event list"

definition effect :: "event list \<Rightarrow> env \<Rightarrow> env" where
  "effect evs e = \<lparr>tick = tick e + 1, trace = trace e @ evs\<rparr>"

definition now :: "world \<Rightarrow> env \<Rightarrow> datetime \<times> env" where
  "now w e = (clock w (tick e), effect [] e)"

section \<open>The token provider: \<^verbatim>\<open>ZoomOAuth\<close>\<close>

text \<open>
  The fields of a \<^verbatim>\<open>ZoomOAuth\<close> object. \<^verbatim>\<open>None\<close> in \<open>access_token\<close> is \<open>JNull\<close>: the
  token is whatever value the token endpoint sent under \<^verbatim>\<open>"access_token"\<close>.
\<close>

record zoom_oauth =
  config :: "zoom_config option"
  access_token :: json
  token_expiry :: "datetime option"

definition TOKEN_URL :: string where
  "TOKEN_URL = ''https://zoom.us/oauth/token''"

definition get_config :: "world \<Rightarrow> env \<Rightarrow> zoom_config option \<times> env" where
  "get_config w e = (query_first w (tick e), effect [QueryFirst] e)"

text \<open>\<^verbatim>\<open>ZoomOAuth.__init__\<close>.\<close>

definition new_oauth :: "world \<Rightarrow> env \<Rightarrow> zoom_oauth \<times> env" where
  "new_oauth w e =
     (let (cfg, e1) = get_config w e
      in (\<lparr>config = cfg, access_token = JNull, token_expiry = None\<rparr>, e1))"

text \<open>
  The part of \<^verbatim>\<open>get_access_token\<close> after the cache test (lines 32 to 59): read the
  configuration, post the client credentials, store the token, then its expiry. The two
  stores are separate statements: a body without \<^verbatim>\<open>"expires_in"\<close> raises after the token
  has been stored.
\<close>

definition credentials_data :: "zoom_config \<Rightarrow> (string \<times> string) list" where
  "credentials_data c =
     [(''grant_type'', ''account_credentials''),
      (''account_id'', zoom_account_id c),
      (''client_id'', zoom_client_id c),
      (''client_secret'', zoom_client_secret c)]"

definition refresh_token :: "world \<Rightarrow> zoom_oauth \<Rightarrow> env \<Rightarrow> (exn + json) \<times> zoom_oauth \<times> env" where
  "refresh_token w self e =
     (let (cfg, e1) = get_config w e in
      case cfg of
        None \<Rightarrow> (Inl (ValueError ''Zoom client configuration not found in the database''), self, e1)
      | Some c \<Rightarrow>
          (let data = credentials_data c;
               e2 = effect [TokenPost data] e1
           in case token_endpoint w (tick e1) data of
                Inl (HTTPError status body m) \<Rightarrow>
                  (if status = 400
                   then (Inl (ValueError
                          ''Failed to obtain Zoom access token. Please check your Zoom credentials.''),
                         self, e2)
                   else (Inl (HTTPError status body m), self, e2))
              | Inl x \<Rightarrow> (Inl x, self, e2)
              | Inr token_data \<Rightarrow>
                  (case py_subscript token_data ''access_token'' of
                     Inl x \<Rightarrow> (Inl x, self, e2)
                   | Inr tok \<Rightarrow>
                       (let self1 = self\<lparr>access_token := tok\<rparr>;
                            (t, e3) = now w e2
                        in case py_subscript token_data ''expires_in'' of
                             Inl x \<Rightarrow> (Inl x, self1, e3)
                           | Inr secs \<Rightarrow>
                               (case timedelta_seconds secs of
                                  Inl x \<Rightarrow> (Inl x, self1, e3)
                                | Inr delta \<Rightarrow>
                                    (Inr tok, self1\<lparr>token_expiry := Some (t + delta)\<rparr>, e3))))))"

text \<open>
  \<^verbatim>\<open>get_access_token\<close>. The test is \<^verbatim>\<open>self.access_token and self.token_expiry and
  datetime.now() < self.token_expiry\<close>: the clock is read only when a token and an expiry
  are there, and a \<^verbatim>\<open>datetime\<close> is always true.
\<close>

definition get_access_token :: "world \<Rightarrow> zoom_oauth \<Rightarrow> env \<Rightarrow> (exn + json) \<times> zoom_oauth \<times> env" where
  "get_access_token w self e =
     (if py_truthy (access_token self) then
        (case token_expiry self of
           None \<Rightarrow> refresh_token w self e
         | Some expiry \<Rightarrow>
             (let (t, e1) = now w e
              in if t < expiry then (Inr (access_token self), self, e1)
                 else refresh_token w self e1))
      else refresh_token w self e)"

section \<open>The API client: \<^verbatim>\<open>ZoomClient\<close>\<close>

definition BASE_URL :: string where
  "BASE_URL = ''https://api.zoom.us/v2''"

text \<open>
  \<^verbatim>\<open>_get_headers\<close>: the value of the \<^verbatim>\<open>Authorization\<close> header (the other header is the
  constant content type). A \<^verbatim>\<open>ZoomClient\<close> holds nothing but its \<^verbatim>\<open>ZoomOAuth\<close>.
\<close>

definition get_headers :: "world \<Rightarrow> zoom_oauth \<Rightarrow> env \<Rightarrow> (exn + string) \<times> zoom_oauth \<times> env" where
  "get_headers w oauth e =
     (case get_access_token w oauth e of
        (Inl x, oauth1, e1) \<Rightarrow> (Inl x, oauth1, e1)
      | (Inr tok, oauth1, e1) \<Rightarrow> (Inr (''Bearer '' @ py_str (py_repr w) tok), oauth1, e1))"

text \<open>\<^verbatim>\<open>_make_request\<close>. No handler passes \<^verbatim>\<open>data\<close>.\<close>

definition make_request ::
  "world \<Rightarrow> zoom_oauth \<Rightarrow> env \<Rightarrow> string \<Rightarrow> string \<Rightarrow> (string \<times> json) list option
     \<Rightarrow> (exn + json) \<times> zoom_oauth \<times> env" where
  "make_request w oauth e method endpoint params =
     (let url = BASE_URL @ ''/'' @ endpoint in
      case get_headers w oauth e of
        (Inl x, oauth1, e1) \<Rightarrow> (Inl x, oauth1, e1)
      | (Inr headers, oauth1, e1) \<Rightarrow>
          (api w (tick e1) method url headers params, oauth1,
           effect [ApiRequest method url headers params] e1))"

text \<open>\<^verbatim>\<open>get_zoom_client\<close>: its handler logs and raises again.\<close>

definition get_zoom_client :: "world \<Rightarrow> env \<Rightarrow> (exn + zoom_oauth) \<times> env" where
  "get_zoom_client w e =
     (let zoom_config = query_get w (tick e); e1 = effect [QueryGet] e in
      case zoom_config of
        None \<Rightarrow> (Inl (ValueError ''Zoom client configuration not found''), e1)
      | Some c \<Rightarrow> (let (oauth, e2) = new_oauth w e1 in (Inr oauth, e2)))"

text \<open>\<^verbatim>\<open>validate_access_key\<close>: a dictionary for the right key, \<^verbatim>\<open>None\<close> otherwise.\<close>

definition validate_access_key :: "world \<Rightarrow> string option \<Rightarrow> env \<Rightarrow> json \<times> env" where
  "validate_access_key w apikey e =
     (let zoom_config = query_get w (tick e); e1 = effect [QueryGet] e in
      case zoom_config of
        None \<Rightarrow> (JNull, e1)
      | Some c \<Rightarrow>
          (if require_access_key c then
             (case apikey of
                None \<Rightarrow> (JNull, e1)
              | Some k \<Rightarrow>
                  (if k \<noteq> [] \<and> k = access_key c
                   then (JObj [(''sub'', JStr ''zoom_api_user'')], e1)
                   else (JNull, e1)))
           else (JNull, e1)))"

text \<open>\<^verbatim>\<open>verify_access_key\<close>: \<^verbatim>\<open>abort(401, ...)\<close> raises.\<close>

definition verify_access_key :: "world \<Rightarrow> env \<Rightarrow> (exn + unit) \<times> env" where
  "verify_access_key w e =
     (let zoom_config = query_get w (tick e); e1 = effect [QueryGet] e in
      case zoom_config of
        None \<Rightarrow> (Inr (), e1)
      | Some c \<Rightarrow>
          (if require_access_key c then
             (let (r, e2) = validate_access_key w (header_key w) e1
              in if \<not> py_truthy r
                 then (Inl (Unauthorized ''401 Unauthorized: Invalid or missing Access Key''), e2)
                 else (Inr (), e2))
           else (Inr (), e1)))"

section \<open>The exposed operations\<close>

text \<open>
  What a handler returns: a payload alone, or the pair of a payload and an HTTP status
  code, which is how the handlers write \<^verbatim>\<open>return jsonify(...), 500\<close>.
\<close>

datatype ret = Plain json | WithStatus json int

text \<open>
  The last clause of every handler: \<^verbatim>\<open>except Exception as e\<close>, which logs and returns
  \<^verbatim>\<open>jsonify({"error": "Internal Server Error", "message": str(e)}), 500\<close>.
\<close>

definition internal_server_error :: "exn \<Rightarrow> ret" where
  "internal_server_error x =
     WithStatus (JObj [(''error'', JStr ''Internal Server Error''),
                       (''message'', JStr (str_exn x))]) 500"

definition except_Exception :: "(exn + ret) \<times> env \<Rightarrow> ret \<times> env" where
  "except_Exception r =
     (case r of
        (Inl x, e) \<Rightarrow> (internal_server_error x, e)
      | (Inr v, e) \<Rightarrow> (v, e))"

subsection \<open>\<^verbatim>\<open>get_meeting_recordings\<close>\<close>

definition get_meeting_recordings_try :: "world \<Rightarrow> string \<Rightarrow> env \<Rightarrow> (exn + ret) \<times> env" where
  "get_meeting_recordings_try w meeting_id e =
     (case verify_access_key w e of
        (Inl x, e1) \<Rightarrow> (Inl x, e1)
      | (Inr u, e1) \<Rightarrow>
     (case get_zoom_client w e1 of
        (Inl x, e2) \<Rightarrow> (Inl x, e2)
      | (Inr client, e2) \<Rightarrow>
     (case make_request w client e2 ''GET'' (''meetings/'' @ meeting_id @ ''/recordings'') None of
        (Inl x, client1, e3) \<Rightarrow> (Inl x, e3)
      | (Inr recordings, client1, e3) \<Rightarrow> (Inr (Plain recordings), e3))))"

definition get_meeting_recordings :: "world \<Rightarrow> string \<Rightarrow> env \<Rightarrow> ret \<times> env" where
  "get_meeting_recordings w meeting_id e =
     except_Exception (get_meeting_recordings_try w meeting_id e)"

subsection \<open>Fetching a transcript\<close>

text \<open>
  \<^verbatim>\<open>next((file for file in files if file.get("file_type") == "TRANSCRIPT"), None)\<close>: the
  generator is consumed up to the first match, so the files after it are not looked at.
\<close>

fun first_transcript :: "json list \<Rightarrow> exn + json" where
  "first_transcript [] = Inr JNull"
| "first_transcript (file # files) =
     (case py_get file ''file_type'' JNull of
        Inl x \<Rightarrow> Inl x
      | Inr t \<Rightarrow> if t = JStr ''TRANSCRIPT'' then Inr file else first_transcript files)"

text \<open>
  \<^verbatim>\<open>get_transcript_content\<close>: every \<^verbatim>\<open>requests.RequestException\<close>, of which \<open>HTTPError\<close> is
  one, is logged and turned into \<^verbatim>\<open>None\<close>.
\<close>

definition get_transcript_content ::
  "world \<Rightarrow> json \<Rightarrow> json \<Rightarrow> env \<Rightarrow> (exn + string option) \<times> env" where
  "get_transcript_content w transcript_download_url tok e =
     (let headers = ''Bearer '' @ py_str (py_repr w) tok;
          e1 = effect [Download transcript_download_url headers] e
      in case download w (tick e) transcript_download_url headers of
           Inr text \<Rightarrow> (Inr (Some text), e1)
         | Inl (HTTPError status body m) \<Rightarrow> (Inr None, e1)
         | Inl (RequestException m) \<Rightarrow> (Inr None, e1)
         | Inl x \<Rightarrow> (Inl x, e1))"

text \<open>\<^verbatim>\<open>{"transcript": None, "message": message}\<close>.\<close>

definition no_transcript :: "string \<Rightarrow> ret" where
  "no_transcript message = Plain (JObj [(''transcript'', JNull), (''message'', JStr message)])"

text \<open>\<^verbatim>\<open>{"transcript": json.loads(webvtt_to_json(transcript_content))}\<close>.\<close>

definition transcript_payload :: "string \<Rightarrow> exn + ret" where
  "transcript_payload transcript_content =
     (case webvtt_to_json transcript_content of
        Inl x \<Rightarrow> Inl x
      | Inr json_data \<Rightarrow> Inr (Plain (JObj [(''transcript'', JArr json_data)])))"

subsection \<open>\<^verbatim>\<open>get_meeting_transcript\<close>\<close>

text \<open>
  The handler calls \<^verbatim>\<open>get_meeting_recordings\<close>, which builds a client of its own, and
  then \<^verbatim>\<open>.get\<close> on what it returned: on the pair of the failure case, a tuple, that raises.
\<close>

definition get_meeting_transcript_try :: "world \<Rightarrow> string \<Rightarrow> env \<Rightarrow> (exn + ret) \<times> env" where
  "get_meeting_transcript_try w meeting_id e =
     (case verify_access_key w e of
        (Inl x, e1) \<Rightarrow> (Inl x, e1)
      | (Inr u, e1) \<Rightarrow>
     (case get_zoom_client w e1 of
        (Inl x, e2) \<Rightarrow> (Inl x, e2)
      | (Inr client, e2) \<Rightarrow>
     (case get_meeting_recordings w meeting_id e2 of
        (WithStatus payload status, e3) \<Rightarrow>
          (Inl (AttributeError (apos @ ''tuple'' @ apos @ '' object has no attribute '' @
                                apos @ ''get'' @ apos)), e3)
      | (Plain recordings, e3) \<Rightarrow>
     (case py_get recordings ''recording_files'' (JArr []) of
        Inl x \<Rightarrow> (Inl x, e3)
      | Inr recording_files \<Rightarrow>
     (case py_iter recording_files of
        Inl x \<Rightarrow> (Inl x, e3)
      | Inr files \<Rightarrow>
     (case first_transcript files of
        Inl x \<Rightarrow> (Inl x, e3)
      | Inr transcript_file \<Rightarrow>
          if \<not> py_truthy transcript_file then (Inr (no_transcript ''No transcript found''), e3)
          else
     (case py_get transcript_file ''download_url'' JNull of
        Inl x \<Rightarrow> (Inl x, e3)
      | Inr transcript_url \<Rightarrow>
          if \<not> py_truthy transcript_url
          then (Inr (no_transcript ''No transcript URL available''), e3)
          else
     (case get_access_token w client e3 of
        (Inl x, client1, e4) \<Rightarrow> (Inl x, e4)
      | (Inr tok, client1, e4) \<Rightarrow>
     (case get_transcript_content w transcript_url tok e4 of
        (Inl x, e5) \<Rightarrow> (Inl x, e5)
      | (Inr None, e5) \<Rightarrow>
          (Inr (no_transcript ''Failed to retrieve transcript content''), e5)
      | (Inr (Some transcript_content), e5) \<Rightarrow>
          if transcript_content = []
          then (Inr (no_transcript ''Failed to retrieve transcript content''), e5)
          else (transcript_payload transcript_content, e5))))))))))"

definition get_meeting_transcript :: "world \<Rightarrow> string \<Rightarrow> env \<Rightarrow> ret \<times> env" where
  "get_meeting_transcript w meeting_id e =
     except_Exception (get_meeting_transcript_try w meeting_id e)"

subsection \<open>\<^verbatim>\<open>get_recording_transcript\<close>\<close>

text \<open>
  The inner \<^verbatim>\<open>try\<close> block (lines 359 to 380). Here the download URL is read with
  \<^verbatim>\<open>transcript_file["download_url"]\<close>, which raises when the key is missing.
\<close>

definition get_recording_transcript_inner ::
  "world \<Rightarrow> zoom_oauth \<Rightarrow> string \<Rightarrow> env \<Rightarrow> (exn + ret) \<times> env" where
  "get_recording_transcript_inner w client recording_id e =
     (case make_request w client e ''GET'' (''recordings/'' @ recording_id) None of
        (Inl x, client1, e1) \<Rightarrow> (Inl x, e1)
      | (Inr recording, client1, e1) \<Rightarrow>
     (case py_get recording ''recording_files'' (JArr []) of
        Inl x \<Rightarrow> (Inl x, e1)
      | Inr recording_files \<Rightarrow>
     (case py_iter recording_files of
        Inl x \<Rightarrow> (Inl x, e1)
      | Inr files \<Rightarrow>
     (case first_transcript files of
        Inl x \<Rightarrow> (Inl x, e1)
      | Inr transcript_file \<Rightarrow>
          if \<not> py_truthy transcript_file
          then (Inr (no_transcript ''No transcript available''), e1)
          else
     (case py_subscript transcript_file ''download_url'' of
        Inl x \<Rightarrow> (Inl x, e1)
      | Inr transcript_url \<Rightarrow>
     (case get_access_token w client1 e1 of
        (Inl x, client2, e2) \<Rightarrow> (Inl x, e2)
      | (Inr tok, client2, e2) \<Rightarrow>
     (case get_transcript_content w transcript_url tok e2 of
        (Inl x, e3) \<Rightarrow> (Inl x, e3)
      | (Inr None, e3) \<Rightarrow> (Inr (no_transcript ''Failed to retrieve transcript''), e3)
      | (Inr (Some transcript_content), e3) \<Rightarrow>
          if transcript_content = []
          then (Inr (no_transcript ''Failed to retrieve transcript''), e3)
          else (transcript_payload transcript_content, e3))))))))"

text \<open>
  Around it, \<^verbatim>\<open>except HTTPError as e\<close>: status 404 returns \<^verbatim>\<open>"Recording not found"\<close>, any
  other status is raised again.
\<close>

definition get_recording_transcript_try :: "world \<Rightarrow> string \<Rightarrow> env \<Rightarrow> (exn + ret) \<times> env" where
  "get_recording_transcript_try w recording_id e =
     (case verify_access_key w e of
        (Inl x, e1) \<Rightarrow> (Inl x, e1)
      | (Inr u, e1) \<Rightarrow>
     (case get_zoom_client w e1 of
        (Inl x, e2) \<Rightarrow> (Inl x, e2)
      | (Inr client, e2) \<Rightarrow>
     (case get_recording_transcript_inner w client recording_id e2 of
        (Inl (HTTPError status body m), e3) \<Rightarrow>
          (if status = 404 then (Inr (no_transcript ''Recording not found''), e3)
           else (Inl (HTTPError status body m), e3))
      | r \<Rightarrow> r)))"

definition get_recording_transcript :: "world \<Rightarrow> string \<Rightarrow> env \<Rightarrow> ret \<times> env" where
  "get_recording_transcript w recording_id e =
     except_Exception (get_recording_transcript_try w recording_id e)"

subsection \<open>\<^verbatim>\<open>get_instructor_recordings\<close>: the window scan\<close>

text \<open>
  What one pass of the \<^verbatim>\<open>while\<close> loop ends with: the handler returns from inside the loop
  (\<open>Return\<close>), or the window's recordings are appended and the loop goes on (\<open>Extend\<close>).
\<close>

datatype window_outcome = Return ret | Extend "json list"

definition window_params :: "world \<Rightarrow> datetime \<Rightarrow> (string \<times> json) list option" where
  "window_params w current_date =
     (let range_end = strftime_ymd w current_date;
          range_start = strftime_ymd w (current_date - days30)
      in Some [(''page_size'', JInt 300), (''from'', JStr range_start), (''to'', JStr range_end)])"

text \<open>
  The inner \<^verbatim>\<open>try\<close> block (lines 215 to 233): resolve the identifier to a user, then ask
  for the window again with the user's id. The logging call evaluates \<^verbatim>\<open>len(recordings)\<close>
  before the recordings are appended.
\<close>

definition resolve_and_retry ::
  "world \<Rightarrow> string \<Rightarrow> zoom_oauth \<Rightarrow> env \<Rightarrow> datetime \<Rightarrow> (exn + json list) \<times> zoom_oauth \<times> env" where
  "resolve_and_retry w instructor_id client e current_date =
     (case make_request w client e ''GET'' (''users/'' @ instructor_id) None of
        (Inl x, client1, e1) \<Rightarrow> (Inl x, client1, e1)
      | (Inr user, client1, e1) \<Rightarrow>
     (case py_get user ''id'' JNull of
        Inl x \<Rightarrow> (Inl x, client1, e1)
      | Inr user_id \<Rightarrow>
     (case make_request w client1 e1 ''GET''
             (''users/'' @ py_str (py_repr w) user_id @ ''/recordings'')
             (window_params w current_date) of
        (Inl x, client2, e2) \<Rightarrow> (Inl x, client2, e2)
      | (Inr recordings_response, client2, e2) \<Rightarrow>
     (case py_get recordings_response ''meetings'' (JArr []) of
        Inl x \<Rightarrow> (Inl x, client2, e2)
      | Inr recordings \<Rightarrow>
     (case py_len recordings of
        Inl x \<Rightarrow> (Inl x, client2, e2)
      | Inr n \<Rightarrow>
     (case py_iter recordings of
        Inl x \<Rightarrow> (Inl x, client2, e2)
      | Inr rs \<Rightarrow> (Inr rs, client2, e2)))))))"

text \<open>
  The body of the \<^verbatim>\<open>while\<close> loop (lines 196 to 241). An \<open>HTTPError\<close> with status 404 on
  the window's request starts the resolution; any \<open>HTTPError\<close> from the resolution or from
  the retried request returns the empty result; every other exception is raised.
\<close>

definition no_zoom_user :: ret where
  "no_zoom_user = Plain (JObj [(''recordings'', JArr []), (''message'', JStr ''No Zoom user found'')])"

definition window_step ::
  "world \<Rightarrow> string \<Rightarrow> zoom_oauth \<Rightarrow> env \<Rightarrow> datetime
     \<Rightarrow> (exn + window_outcome) \<times> zoom_oauth \<times> env" where
  "window_step w instructor_id client e current_date =
     (case make_request w client e ''GET'' (''users/'' @ instructor_id @ ''/recordings'')
             (window_params w current_date) of
        (Inr recordings_response, client1, e1) \<Rightarrow>
          (case py_get recordings_response ''meetings'' (JArr []) of
             Inl x \<Rightarrow> (Inl x, client1, e1)
           | Inr recordings \<Rightarrow>
               (case py_iter recordings of
                  Inl x \<Rightarrow> (Inl x, client1, e1)
                | Inr rs \<Rightarrow> (Inr (Extend rs), client1, e1)))
      | (Inl (HTTPError status body m), client1, e1) \<Rightarrow>
          (if status = 404 then
             (case resolve_and_retry w instructor_id client1 e1 current_date of
                (Inl (HTTPError status2 body2 m2), client2, e2) \<Rightarrow>
                  (Inr (Return no_zoom_user), client2, e2)
              | (Inl x, client2, e2) \<Rightarrow> (Inl x, client2, e2)
              | (Inr rs, client2, e2) \<Rightarrow> (Inr (Extend rs), client2, e2))
           else (Inl (HTTPError status body m), client1, e1))
      | (Inl x, client1, e1) \<Rightarrow> (Inl x, client1, e1))"

text \<open>
  \<^verbatim>\<open>while current_date >= start_date\<close>, with \<open>all_recordings\<close> as the accumulator. Each
  pass moves \<open>current_date\<close> back by thirty days.
\<close>

function window_loop ::
  "world \<Rightarrow> string \<Rightarrow> zoom_oauth \<Rightarrow> env \<Rightarrow> datetime \<Rightarrow> json list
     \<Rightarrow> (exn + window_outcome) \<times> zoom_oauth \<times> env" where
  "window_loop w instructor_id client e current_date all_recordings =
     (if start_date \<le> current_date then
        (case window_step w instructor_id client e current_date of
           (Inl x, client1, e1) \<Rightarrow> (Inl x, client1, e1)
         | (Inr (Return r), client1, e1) \<Rightarrow> (Inr (Return r), client1, e1)
         | (Inr (Extend rs), client1, e1) \<Rightarrow>
             window_loop w instructor_id client1 e1 (current_date - days30) (all_recordings @ rs))
      else (Inr (Extend all_recordings), client, e))"
  by pat_completeness auto
termination
  by (relation "measure (\<lambda>(w, i, c, e, d, a). nat (d + 1))")
     (auto simp: start_date_def days30_def)

declare window_loop.simps [simp del]

subsection \<open>\<^verbatim>\<open>get_instructor_recordings\<close>: the course filter\<close>

text \<open>
  The report of one recording (lines 249 to 277): \<open>None\<close> stands for \<^verbatim>\<open>continue\<close>, the
  recording is skipped. Only \<open>HTTPError\<close> is caught. The handler decodes the body of the
  failed response before it looks at the status, and reads \<^verbatim>\<open>"code"\<close> only for status 404.
\<close>

definition meeting_report ::
  "world \<Rightarrow> json \<Rightarrow> zoom_oauth \<Rightarrow> env \<Rightarrow> (exn + json option) \<times> zoom_oauth \<times> env" where
  "meeting_report w recording client e =
     (case py_get recording ''id'' JNull of
        Inl x \<Rightarrow> (Inl x, client, e)
      | Inr meeting_id \<Rightarrow>
     (case py_get recording ''uuid'' (JStr []) of
        Inl x \<Rightarrow> (Inl x, client, e)
      | Inr uuid \<Rightarrow>
     (case py_get recording ''topic'' (JStr ''No topic'') of
        Inl x \<Rightarrow> (Inl x, client, e)
      | Inr topic \<Rightarrow>
     (case make_request w client e ''GET''
             (''report/meetings/'' @ py_str (py_repr w) meeting_id) None of
        (Inr report, client1, e1) \<Rightarrow> (Inr (Some report), client1, e1)
      | (Inl (HTTPError status body m), client1, e1) \<Rightarrow>
          (case body of
             Inl decode_error \<Rightarrow> (Inl (ValueError decode_error), client1, e1)
           | Inr error_response \<Rightarrow>
               (case (if status = 404
                      then (case py_get error_response ''code'' JNull of
                              Inl x \<Rightarrow> Inl x
                            | Inr code \<Rightarrow> Inr (code = JInt 3001))
                      else Inr False) of
                  Inl x \<Rightarrow> (Inl x, client1, e1)
                | Inr True \<Rightarrow>
                    (case make_request w client1 e1 ''GET''
                            (''report/meetings/'' @ py_str (py_repr w) uuid) None of
                       (Inr report, client2, e2) \<Rightarrow> (Inr (Some report), client2, e2)
                     | (Inl (HTTPError status2 body2 m2), client2, e2) \<Rightarrow> (Inr None, client2, e2)
                     | (Inl x, client2, e2) \<Rightarrow> (Inl x, client2, e2))
                | Inr False \<Rightarrow> (Inr None, client1, e1)))
      | (Inl x, client1, e1) \<Rightarrow> (Inl x, client1, e1)))))"

text \<open>
  The list comprehension over \<^verbatim>\<open>recording.get("recording_files", [])\<close>: the files of type
  MP4 or TRANSCRIPT, each reduced to four fields.
\<close>

fun reduced_files :: "json list \<Rightarrow> exn + json list" where
  "reduced_files [] = Inr []"
| "reduced_files (f # fs) =
     (case py_get f ''file_type'' JNull of
        Inl x \<Rightarrow> Inl x
      | Inr t \<Rightarrow>
          if t = JStr ''MP4'' \<or> t = JStr ''TRANSCRIPT'' then
            (case (py_get f ''id'' JNull, py_get f ''file_type'' JNull,
                   py_get f ''recording_type'' JNull, py_get f ''download_url'' JNull) of
               (Inr i, Inr ft, Inr rt, Inr url) \<Rightarrow>
                 (case reduced_files fs of
                    Inl x \<Rightarrow> Inl x
                  | Inr out \<Rightarrow>
                      Inr (JObj [(''id'', i), (''file_type'', ft), (''recording_type'', rt),
                                 (''download_url'', url)] # out))
             | (Inl x, b, c, d) \<Rightarrow> Inl x
             | (a, Inl x, c, d) \<Rightarrow> Inl x
             | (a, b, Inl x, d) \<Rightarrow> Inl x
             | (a, b, c, Inl x) \<Rightarrow> Inl x)
          else reduced_files fs)"

text \<open>The dictionary \<open>recording_info\<close>, built the same way in both branches.\<close>

definition recording_info :: "json \<Rightarrow> exn + json" where
  "recording_info recording =
     (case (py_get recording ''id'' JNull, py_get recording ''uuid'' JNull,
            py_get recording ''topic'' JNull, py_get recording ''start_time'' JNull,
            py_get recording ''duration'' JNull,
            py_get recording ''recording_files'' (JArr [])) of
        (Inr i, Inr u, Inr t, Inr s, Inr d, Inr recording_files) \<Rightarrow>
          (case py_iter recording_files of
             Inl x \<Rightarrow> Inl x
           | Inr fs \<Rightarrow>
               (case reduced_files fs of
                  Inl x \<Rightarrow> Inl x
                | Inr files \<Rightarrow>
                    Inr (JObj [(''id'', i), (''uuid'', u), (''topic'', t), (''start_time'', s),
                               (''duration'', d), (''recording_files'', JArr files)])))
      | (Inl x, b, c, d, f, g) \<Rightarrow> Inl x
      | (a, Inl x, c, d, f, g) \<Rightarrow> Inl x
      | (a, b, Inl x, d, f, g) \<Rightarrow> Inl x
      | (a, b, c, Inl x, f, g) \<Rightarrow> Inl x
      | (a, b, c, d, Inl x, g) \<Rightarrow> Inl x
      | (a, b, c, d, f, Inl x) \<Rightarrow> Inl x)"

text \<open>
  \<^verbatim>\<open>next((field for field in tracking_fields if field.get("field") == "Canvas Course"),
  None)\<close>.
\<close>

fun canvas_course_field :: "json list \<Rightarrow> exn + json" where
  "canvas_course_field [] = Inr JNull"
| "canvas_course_field (field # rest) =
     (case py_get field ''field'' JNull of
        Inl x \<Rightarrow> Inl x
      | Inr name \<Rightarrow> if name = JStr ''Canvas Course'' then Inr field
                     else canvas_course_field rest)"

text \<open>
  The decision for a recording whose report was fetched (lines 280 to 337): \<open>Some\<close> the
  entry to append, or \<open>None\<close>. \<^verbatim>\<open>not course_id\<close> holds for \<^verbatim>\<open>None\<close> and for the empty string.
\<close>

definition include_recording ::
  "world \<Rightarrow> string option \<Rightarrow> json \<Rightarrow> json \<Rightarrow> exn + json option" where
  "include_recording w course_id recording report =
     (if course_id = None \<or> course_id = Some [] then
        (case recording_info recording of Inl x \<Rightarrow> Inl x | Inr info \<Rightarrow> Inr (Some info))
      else
        (case py_get report ''tracking_fields'' (JArr []) of
           Inl x \<Rightarrow> Inl x
         | Inr tracking_fields \<Rightarrow>
        (case py_iter tracking_fields of
           Inl x \<Rightarrow> Inl x
         | Inr fs \<Rightarrow>
        (case canvas_course_field fs of
           Inl x \<Rightarrow> Inl x
         | Inr field \<Rightarrow>
             if \<not> py_truthy field then Inr None
             else
        (case py_get field ''value'' (JStr []) of
           Inl x \<Rightarrow> Inl x
         | Inr v \<Rightarrow>
             if Some (py_str (py_repr w) v) = course_id
             then (case recording_info recording of
                     Inl x \<Rightarrow> Inl x
                   | Inr info \<Rightarrow> Inr (Some info))
             else Inr None)))))"

text \<open>\<^verbatim>\<open>for recording in all_recordings\<close>, with \<open>filtered_recordings\<close> as the accumulator.\<close>

fun filter_loop ::
  "world \<Rightarrow> string option \<Rightarrow> json list \<Rightarrow> zoom_oauth \<Rightarrow> env \<Rightarrow> json list
     \<Rightarrow> (exn + json list) \<times> zoom_oauth \<times> env" where
  "filter_loop w course_id [] client e filtered_recordings = (Inr filtered_recordings, client, e)"
| "filter_loop w course_id (recording # rest) client e filtered_recordings =
     (case meeting_report w recording client e of
        (Inl x, client1, e1) \<Rightarrow> (Inl x, client1, e1)
      | (Inr None, client1, e1) \<Rightarrow> filter_loop w course_id rest client1 e1 filtered_recordings
      | (Inr (Some report), client1, e1) \<Rightarrow>
          (case include_recording w course_id recording report of
             Inl x \<Rightarrow> (Inl x, client1, e1)
           | Inr None \<Rightarrow> filter_loop w course_id rest client1 e1 filtered_recordings
           | Inr (Some info) \<Rightarrow>
               filter_loop w course_id rest client1 e1 (filtered_recordings @ [info])))"

subsection \<open>\<^verbatim>\<open>get_instructor_recordings\<close>\<close>

definition get_instructor_recordings_try ::
  "world \<Rightarrow> string \<Rightarrow> string option \<Rightarrow> env \<Rightarrow> (exn + ret) \<times> env" where
  "get_instructor_recordings_try w instructor_id course_id e =
     (case verify_access_key w e of
        (Inl x, e1) \<Rightarrow> (Inl x, e1)
      | (Inr u, e1) \<Rightarrow>
     (case get_zoom_client w e1 of
        (Inl x, e2) \<Rightarrow> (Inl x, e2)
      | (Inr client, e2) \<Rightarrow>
     (let (end_date, e3) = now w e2 in
      case window_loop w instructor_id client e3 end_date [] of
        (Inl x, client1, e4) \<Rightarrow> (Inl x, e4)
      | (Inr (Return r), client1, e4) \<Rightarrow> (Inr r, e4)
      | (Inr (Extend all_recordings), client1, e4) \<Rightarrow>
          (case filter_loop w course_id all_recordings client1 e4 [] of
             (Inl x, client2, e5) \<Rightarrow> (Inl x, e5)
           | (Inr filtered_recordings, client2, e5) \<Rightarrow>
               (Inr (Plain (JObj [(''recordings'', JArr filtered_recordings)])), e5)))))"

definition get_instructor_recordings ::
  "world \<Rightarrow> string \<Rightarrow> string option \<Rightarrow> env \<Rightarrow> ret \<times> env" where
  "get_instructor_recordings w instructor_id course_id e =
     except_Exception (get_instructor_recordings_try w instructor_id course_id e)"

section \<open>Notions the properties are stated with\<close>

text \<open>Whether \<open>sep\<close> occurs in \<open>s\<close>, as \<^verbatim>\<open>sep in s\<close>.\<close>

fun contains :: "string \<Rightarrow> string \<Rightarrow> bool" where
  "contains sep [] = (sep = [])"
| "contains sep (c # cs) = (take (length sep) (c # cs) = sep \<or> contains sep cs)"


text \<open>The records one caption block adds to \<open>json_data\<close>: one pass of the loop, by itself.\<close>

definition block_records :: "string \<Rightarrow> json list" where
  "block_records caption =
     (if py_upper (py_strip caption) = ''WEBVTT'' then []
      else
        let lines = py_split crlf caption in
        if 3 \<le> length lines then
          (case py_split arrow (lines ! 1) of
             [start, end] \<Rightarrow> [caption_obj (lines ! 0) start end (py_join '' '' (drop 2 lines))]
           | _ \<Rightarrow> [])
        else [])"









text \<open>The input of the end-to-end scenario of section 8.\<close>

definition scenario_transcript :: string where
  "scenario_transcript =
     ''WEBVTT'' @ crlf @ crlf @
     ''1'' @ crlf @ ''00:00:00.000 --> 00:00:02.000'' @ crlf @ ''Hello world'' @ crlf @ crlf @
     ''2'' @ crlf @ ''00:00:02.000 --> 00:00:04.000'' @ crlf @ ''Second line''"




text \<open>
  A small world for the concrete instances: the clock shows the tick, the configuration is
  there, no access key is required, the token endpoint hands out the token \<open>tok\<close> for an
  hour, every API request is answered with an empty object and every download fails.
\<close>

definition demo_config :: zoom_config where
  "demo_config =
     \<lparr>zoom_account_id = ''account'', zoom_client_id = ''client'',
      zoom_client_secret = ''secret'', require_access_key = False, access_key = ''key''\<rparr>"

definition demo_token :: json where
  "demo_token = JObj [(''access_token'', JStr ''tok''), (''expires_in'', JInt 3600)]"

definition demo_world :: world where
  "demo_world =
     \<lparr>clock = (\<lambda>k. int k),
      query_first = (\<lambda>k. Some demo_config),
      query_get = (\<lambda>k. Some demo_config),
      header_key = None,
      token_endpoint = (\<lambda>k data. Inr demo_token),
      api = (\<lambda>k method url headers params. Inr (JObj [])),
      download = (\<lambda>k url headers. Inl (RequestException ''connection refused'')),
      strftime_ymd = (\<lambda>d. str_int (d div 86400000000)),
      py_repr = (\<lambda>j. ''...'')\<rparr>"

definition env0 :: env where
  "env0 = \<lparr>tick = 0, trace = []\<rparr>"

text \<open>A returned value that is a payload alone, with no status code beside it.\<close>

fun is_plain :: "ret \<Rightarrow> bool" where
  "is_plain (Plain p) = True"
| "is_plain (WithStatus p status) = False"

definition returns_plain :: "exn + ret \<Rightarrow> bool" where
  "returns_plain r = (case r of Inl x \<Rightarrow> True | Inr v \<Rightarrow> is_plain v)"

text \<open>What the scan of the windows can return from inside the loop.\<close>

definition loop_plain :: "exn + window_outcome \<Rightarrow> bool" where
  "loop_plain r = (case r of Inr (Return v) \<Rightarrow> v = no_zoom_user | _ \<Rightarrow> True)"

text \<open>
  The scan after \<open>k\<close> windows that all went through (each one extended the accumulator):
  the client, the environment, the date and the recordings gathered at that point.
\<close>

fun scan_windows ::
  "world \<Rightarrow> string \<Rightarrow> nat \<Rightarrow> zoom_oauth \<Rightarrow> env \<Rightarrow> datetime \<Rightarrow> json list
     \<Rightarrow> (zoom_oauth \<times> env \<times> datetime \<times> json list) option" where
  "scan_windows w instructor_id 0 client e current_date all_recordings =
     Some (client, e, current_date, all_recordings)"
| "scan_windows w instructor_id (Suc k) client e current_date all_recordings =
     (if start_date \<le> current_date then
        (case window_step w instructor_id client e current_date of
           (Inr (Extend rs), client1, e1) \<Rightarrow>
             scan_windows w instructor_id k client1 e1 (current_date - days30)
               (all_recordings @ rs)
         | other \<Rightarrow> None)
      else None)"

text \<open>
  A world for the scan: the clock stands thirty days after the start date, so the scan has
  two windows. The first window of the identifier \<open>ann\<close> has one recording; every other
  request is answered with status 404.
\<close>

definition not_found :: exn where
  "not_found = HTTPError 404 (Inr (JObj [(''code'', JInt 1001)])) ''404 Client Error: Not Found''"

definition unknown_user_world :: world where
  "unknown_user_world =
     demo_world
       \<lparr>clock := (\<lambda>k. days30),
        api := (\<lambda>k method url headers params.
                 if url = ''https://api.zoom.us/v2/users/ann/recordings'' \<and>
                    params = Some [(''page_size'', JInt 300), (''from'', JStr ''0''),
                                   (''to'', JStr ''30'')]
                 then Inr (JObj [(''meetings'', JArr [JObj [(''id'', JInt 7)]])])
                 else Inl not_found)\<rparr>"


text \<open>
  A world for the course filter: one window, in which the identifier \<open>ann\<close> has the two
  recordings \<open>a\<close> and \<open>b\<close>. The report of \<open>a\<close> fails with the given exception, the report
  of \<open>b\<close> is there.
\<close>

definition report_world :: "exn \<Rightarrow> world" where
  "report_world failure =
     demo_world
       \<lparr>clock := (\<lambda>k. 0),
        api := (\<lambda>k method url headers params.
                 if url = ''https://api.zoom.us/v2/users/ann/recordings''
                 then Inr (JObj [(''meetings'', JArr [JObj [(''id'', JStr ''a'')],
                                                      JObj [(''id'', JStr ''b'')]])])
                 else if url = ''https://api.zoom.us/v2/report/meetings/a'' then Inl failure
                 else Inr (JObj []))\<rparr>"

text \<open>
  A world in which every recording has one file, of type TRANSCRIPT, that carries no
  download URL.
\<close>

definition no_url_world :: world where
  "no_url_world =
     demo_world
       \<lparr>api := (\<lambda>k method url headers params.
                 Inr (JObj [(''recording_files'',
                             JArr [JObj [(''file_type'', JStr ''TRANSCRIPT'')]])]))\<rparr>"

text \<open>No file of the list is a dictionary with the file type TRANSCRIPT.\<close>

fun no_transcript_file :: "json list \<Rightarrow> bool" where
  "no_transcript_file [] = True"
| "no_transcript_file (JObj kvs # files) =
     (map_of kvs ''file_type'' \<noteq> Some (JStr ''TRANSCRIPT'') \<and> no_transcript_file files)"
| "no_transcript_file (other # files) = False"





section \<open>The caption parser\<close>

subsection \<open>The loop, one block at a time\<close>


lemma caption_loop_step:
  "caption_loop (b # bs) acc = caption_loop bs (acc @ block_records b)"
proof (cases "py_split arrow (py_split crlf b ! 1)" rule: unpack2.cases)
  case (1 a b)
  then show ?thesis by (simp add: block_records_def py_index_def Let_def)
next
  case 2
  then show ?thesis by (simp add: block_records_def py_index_def Let_def)
next
  case (3 a)
  then show ?thesis by (simp add: block_records_def py_index_def Let_def)
next
  case (4 a b c xs)
  then show ?thesis by (simp add: block_records_def py_index_def Let_def)
qed

lemma caption_loop_eq:
  "caption_loop bs acc = Inr (acc @ concat (map block_records bs))"
proof (induction bs arbitrary: acc)
  case Nil
  show ?case by simp
next
  case (Cons b bs)
  show ?case by (simp only: caption_loop_step Cons.IH) simp
qed

subsection \<open>Splitting at a separator\<close>

lemma py_split_absent:
  "sep \<noteq> [] \<Longrightarrow> \<not> contains sep s \<Longrightarrow> py_split sep s = [s]"
  by (induction s) auto







subsection \<open>Cutting the raw text into blocks\<close>





subsection \<open>A well-formed block is not the header and gives one record\<close>










text \<open>
  C4. The end-to-end scenario: the transcript with a header block and two caption blocks,
  separated by carriage return and line feed, parses to exactly the two records; the header
  block gives none.
\<close>

theorem webvtt_scenario:
  "webvtt_to_json scenario_transcript =
     Inr [JObj [(''index'', JStr ''1''), (''start'', JStr ''00:00:00.000''),
                (''end'', JStr ''00:00:02.000''), (''text'', JStr ''Hello world'')],
          JObj [(''index'', JStr ''2''), (''start'', JStr ''00:00:02.000''),
                (''end'', JStr ''00:00:04.000''), (''text'', JStr ''Second line'')]]"
  by (simp add: scenario_transcript_def webvtt_to_json_def crlf_def arrow_def py_strip_def
      is_space_def py_upper_def upper_char_def py_index_def caption_obj_def)

text \<open>
  C5. The parser is total: for every input it returns a sequence of records and raises
  nothing. A block with fewer than three lines, or whose second line lacks the separator,
  adds no record, and the result is what the other blocks give by themselves.
\<close>

theorem webvtt_total:
  "(\<exists>records. webvtt_to_json raw = Inr records) \<and>
   ((length (py_split crlf b) < 3 \<or> \<not> contains arrow (py_split crlf b ! 1)) \<and>
    py_split (crlf @ crlf) (py_strip raw) = before @ b # after
    \<longrightarrow> webvtt_to_json raw = caption_loop (before @ after) [])"
proof -
  have skip: "block_records b = []"
    if "length (py_split crlf b) < 3 \<or> \<not> contains arrow (py_split crlf b ! 1)"
  proof (cases "length (py_split crlf b) < 3")
    case True
    then show ?thesis by (simp add: block_records_def)
  next
    case False
    with that have "py_split arrow (py_split crlf b ! 1) = [py_split crlf b ! 1]"
      by (intro py_split_absent) (simp_all add: arrow_def)
    then show ?thesis by (simp add: block_records_def Let_def)
  qed
  show ?thesis
    by (auto simp: webvtt_to_json_def caption_loop_eq skip)
qed

theorem webvtt_total_witness:
  "(length (py_split crlf (''1'' @ crlf @ ''no separator here'' @ crlf @ ''text'')) < 3 \<or>
    \<not> contains arrow (py_split crlf (''1'' @ crlf @ ''no separator here'' @ crlf @ ''text'') ! 1)) \<and>
   py_split (crlf @ crlf)
     (py_strip (''1'' @ crlf @ ''no separator here'' @ crlf @ ''text'' @ crlf @ crlf @
                ''2'' @ crlf @ ''A --> B'' @ crlf @ ''kept'')) =
     [] @ (''1'' @ crlf @ ''no separator here'' @ crlf @ ''text'') #
     [''2'' @ crlf @ ''A --> B'' @ crlf @ ''kept''] \<and>
   webvtt_to_json (''1'' @ crlf @ ''no separator here'' @ crlf @ ''text'' @ crlf @ crlf @
                   ''2'' @ crlf @ ''A --> B'' @ crlf @ ''kept'') =
     Inr [caption_obj ''2'' ''A'' ''B'' ''kept'']"
  using webvtt_total
    [of "''1'' @ crlf @ ''no separator here'' @ crlf @ ''text'' @ crlf @ crlf @
         ''2'' @ crlf @ ''A --> B'' @ crlf @ ''kept''"
        "''1'' @ crlf @ ''no separator here'' @ crlf @ ''text''"
        "[]" "[''2'' @ crlf @ ''A --> B'' @ crlf @ ''kept'']"]
  by (simp add: crlf_def arrow_def py_strip_def is_space_def py_upper_def upper_char_def
      py_index_def)

section \<open>Running the model on a concrete world\<close>

text \<open>The definitions a concrete run unfolds.\<close>

lemmas run_defs =
  verify_access_key_def validate_access_key_def get_zoom_client_def new_oauth_def get_config_def
  make_request_def get_headers_def get_access_token_def refresh_token_def credentials_data_def
  now_def effect_def window_params_def BASE_URL_def
  demo_world_def demo_config_def demo_token_def env0_def days30_def start_date_def
  str_int_def str_nat.simps Let_def

section \<open>The token provider\<close>


lemma get_access_token_cached:
  assumes "py_truthy (access_token self)"
    and "token_expiry self = Some expiry"
    and "clock w (tick e) < expiry"
  shows "get_access_token w self e = (Inr (access_token self), self, e\<lparr>tick := tick e + 1\<rparr>)"
  using assms by (simp add: get_access_token_def now_def effect_def)

text \<open>
  C10. When a cached token is there (a value Python takes as true, so not \<^verbatim>\<open>None\<close> and not
  the empty string) and the clock is before its expiry, \<^verbatim>\<open>get_access_token\<close> returns the
  cached token. The only effect is the reading of the clock: the trace is as it was, so the
  configuration is not read and no token is requested, whatever the configuration store
  would answer. The error for a missing configuration therefore belongs to the refresh path
  alone.
\<close>

theorem cached_token_skips_configuration:
  assumes "py_truthy (access_token self)"
    and "token_expiry self = Some expiry"
    and "clock w (tick e) < expiry"
  shows "get_access_token w self e = (Inr (access_token self), self, e\<lparr>tick := tick e + 1\<rparr>)"
  using assms by (rule get_access_token_cached)

theorem cached_token_skips_configuration_witness:
  "py_truthy (JStr ''tok'') \<and>
   clock (demo_world\<lparr>query_first := (\<lambda>k. None)\<rparr>) (tick env0) < 10 \<and>
   query_first (demo_world\<lparr>query_first := (\<lambda>k. None)\<rparr>) (tick env0) = None \<and>
   get_access_token (demo_world\<lparr>query_first := (\<lambda>k. None)\<rparr>)
     \<lparr>config = None, access_token = JStr ''tok'', token_expiry = Some 10\<rparr> env0 =
     (Inr (JStr ''tok''), \<lparr>config = None, access_token = JStr ''tok'', token_expiry = Some 10\<rparr>,
      \<lparr>tick = 1, trace = []\<rparr>)"
  using cached_token_skips_configuration
    [of "\<lparr>config = None, access_token = JStr ''tok'', token_expiry = Some 10\<rparr>" 10
        "demo_world\<lparr>query_first := (\<lambda>k. None)\<rparr>" env0]
  by (simp add: demo_world_def env0_def)



section \<open>What the exposed operations return\<close>

lemma returns_plain_simps [simp]:
  "returns_plain (Inl x)" "returns_plain (Inr (Plain p))" "returns_plain (Inr (no_transcript m))"
  "returns_plain (Inr no_zoom_user)"
  by (simp_all add: returns_plain_def no_transcript_def no_zoom_user_def)

lemma transcript_payload_plain [simp]: "returns_plain (transcript_payload content)"
  by (simp add: transcript_payload_def returns_plain_def split: sum.split)

lemma get_meeting_recordings_try_plain:
  "returns_plain (fst (get_meeting_recordings_try w meeting_id e))"
  by (simp add: get_meeting_recordings_try_def split: prod.split sum.split)

lemma get_meeting_transcript_try_plain:
  "returns_plain (fst (get_meeting_transcript_try w meeting_id e))"
  by (simp add: get_meeting_transcript_try_def split: prod.split sum.split ret.split option.split)

lemma get_recording_transcript_inner_plain:
  "returns_plain (fst (get_recording_transcript_inner w client recording_id e))"
  by (simp add: get_recording_transcript_inner_def split: prod.split sum.split option.split)

lemma get_recording_transcript_try_plain:
  "returns_plain (fst (get_recording_transcript_try w recording_id e))"
proof -
  have inner: "returns_plain (fst r) \<Longrightarrow>
      returns_plain (fst (case r of
        (Inl (HTTPError status body m), e3) \<Rightarrow>
          (if status = 404 then (Inr (no_transcript ''Recording not found''), e3)
           else (Inl (HTTPError status body m), e3))
      | r \<Rightarrow> r))" for r
    by (cases r) (auto split: sum.split exn.split)
  show ?thesis
    using get_recording_transcript_inner_plain
    by (simp add: get_recording_transcript_try_def inner split: prod.split sum.split)
qed

lemma window_step_return:
  "loop_plain (fst (window_step w instructor_id client e d))"
  by (simp add: window_step_def loop_plain_def split: prod.split sum.split exn.split)

lemma window_loop_return:
  "loop_plain (fst (window_loop w instructor_id client e d acc))"
proof (induction w instructor_id client e d acc rule: window_loop.induct)
  case (1 w instructor_id client e current_date all_recordings)
  show ?case
  proof (cases "start_date \<le> current_date")
    case False
    then show ?thesis by (simp add: window_loop.simps loop_plain_def)
  next
    case True
    obtain res c2 e2 where step: "window_step w instructor_id client e current_date = (res, c2, e2)"
      by (cases "window_step w instructor_id client e current_date") auto
    show ?thesis
    proof (cases res)
      case (Inl x)
      with True step show ?thesis by (simp add: window_loop.simps [of w instructor_id client e] loop_plain_def)
    next
      case (Inr out)
      show ?thesis
      proof (cases out)
        case (Return r')
        with True step Inr show ?thesis
          using window_step_return [of w instructor_id client e current_date]
          by (simp add: window_loop.simps [of w instructor_id client e])
      next
        case (Extend rs)
        with True step Inr show ?thesis
          using "1.IH" [OF True step [symmetric] Inr Extend refl]
          by (simp add: window_loop.simps [of w instructor_id client e])
      qed
    qed
  qed
qed

lemma get_instructor_recordings_try_plain:
  "returns_plain (fst (get_instructor_recordings_try w instructor_id course_id e))"
proof -
  have "returns_plain (fst (case r of
        (Inl x, client1, e4) \<Rightarrow> (Inl x, e4)
      | (Inr (Return r), client1, e4) \<Rightarrow> (Inr r, e4)
      | (Inr (Extend all_recordings), client1, e4) \<Rightarrow>
          (case filter_loop w course_id all_recordings client1 e4 [] of
             (Inl x, client2, e5) \<Rightarrow> (Inl x, e5)
           | (Inr filtered_recordings, client2, e5) \<Rightarrow>
               (Inr (Plain (JObj [(''recordings'', JArr filtered_recordings)])), e5))))"
    if "loop_plain (fst r)" for r
    using that
    by (cases r) (auto simp: loop_plain_def split: prod.split sum.split window_outcome.split)
  then show ?thesis
    using window_loop_return
    by (simp add: get_instructor_recordings_try_def now_def split: prod.split sum.split)
qed

lemma except_Exception_raised:
  "fst r = Inl x \<Longrightarrow> fst (except_Exception r) = internal_server_error x"
  by (cases r) (simp add: except_Exception_def)

lemma except_Exception_returned:
  "fst r = Inr v \<Longrightarrow> fst (except_Exception r) = v"
  by (cases r) (simp add: except_Exception_def)

lemma returns_plain_Inr: "returns_plain r \<Longrightarrow> r = Inr v \<Longrightarrow> is_plain v"
  by (simp add: returns_plain_def)

text \<open>
  C9, as the code has it. For each of the four exposed operations: when the body of the
  handler raises an exception that nothing inside has caught, the operation returns the
  uniform failure payload (error \<^verbatim>\<open>Internal Server Error\<close>, message the text of that exception)
  together with the status code 500, which the handler itself sets; when the body returns,
  the operation returns that value, and it is a payload with no status code.
\<close>

theorem exposed_operations_outcome:
  "(\<forall>x. fst (get_meeting_recordings_try w meeting_id e) = Inl x \<longrightarrow>
        fst (get_meeting_recordings w meeting_id e) =
          WithStatus (JObj [(''error'', JStr ''Internal Server Error''),
                            (''message'', JStr (str_exn x))]) 500) \<and>
   (\<forall>v. fst (get_meeting_recordings_try w meeting_id e) = Inr v \<longrightarrow>
        fst (get_meeting_recordings w meeting_id e) = v \<and> is_plain v) \<and>
   (\<forall>x. fst (get_meeting_transcript_try w meeting_id e) = Inl x \<longrightarrow>
        fst (get_meeting_transcript w meeting_id e) =
          WithStatus (JObj [(''error'', JStr ''Internal Server Error''),
                            (''message'', JStr (str_exn x))]) 500) \<and>
   (\<forall>v. fst (get_meeting_transcript_try w meeting_id e) = Inr v \<longrightarrow>
        fst (get_meeting_transcript w meeting_id e) = v \<and> is_plain v) \<and>
   (\<forall>x. fst (get_instructor_recordings_try w instructor_id course_id e) = Inl x \<longrightarrow>
        fst (get_instructor_recordings w instructor_id course_id e) =
          WithStatus (JObj [(''error'', JStr ''Internal Server Error''),
                            (''message'', JStr (str_exn x))]) 500) \<and>
   (\<forall>v. fst (get_instructor_recordings_try w instructor_id course_id e) = Inr v \<longrightarrow>
        fst (get_instructor_recordings w instructor_id course_id e) = v \<and> is_plain v) \<and>
   (\<forall>x. fst (get_recording_transcript_try w recording_id e) = Inl x \<longrightarrow>
        fst (get_recording_transcript w recording_id e) =
          WithStatus (JObj [(''error'', JStr ''Internal Server Error''),
                            (''message'', JStr (str_exn x))]) 500) \<and>
   (\<forall>v. fst (get_recording_transcript_try w recording_id e) = Inr v \<longrightarrow>
        fst (get_recording_transcript w recording_id e) = v \<and> is_plain v)"
  using get_meeting_recordings_try_plain [of w meeting_id e]
    get_meeting_transcript_try_plain [of w meeting_id e]
    get_instructor_recordings_try_plain [of w instructor_id course_id e]
    get_recording_transcript_try_plain [of w recording_id e]
  by (auto simp: get_meeting_recordings_def get_meeting_transcript_def
      get_instructor_recordings_def get_recording_transcript_def
      except_Exception_raised except_Exception_returned internal_server_error_def
      returns_plain_def)

theorem exposed_operations_outcome_witness:
  "fst (get_meeting_recordings (demo_world\<lparr>query_get := (\<lambda>k. None)\<rparr>) ''m1'' env0) =
     WithStatus (JObj [(''error'', JStr ''Internal Server Error''),
                       (''message'', JStr ''Zoom client configuration not found'')]) 500 \<and>
   fst (get_meeting_transcript (demo_world\<lparr>query_get := (\<lambda>k. None)\<rparr>) ''m1'' env0) =
     WithStatus (JObj [(''error'', JStr ''Internal Server Error''),
                       (''message'', JStr ''Zoom client configuration not found'')]) 500 \<and>
   fst (get_instructor_recordings (demo_world\<lparr>query_get := (\<lambda>k. None)\<rparr>) ''ann'' None env0) =
     WithStatus (JObj [(''error'', JStr ''Internal Server Error''),
                       (''message'', JStr ''Zoom client configuration not found'')]) 500 \<and>
   fst (get_recording_transcript (demo_world\<lparr>query_get := (\<lambda>k. None)\<rparr>) ''r1'' env0) =
     WithStatus (JObj [(''error'', JStr ''Internal Server Error''),
                       (''message'', JStr ''Zoom client configuration not found'')]) 500 \<and>
   fst (get_meeting_recordings demo_world ''m1'' env0) = Plain (JObj []) \<and>
   fst (get_meeting_transcript demo_world ''m1'' env0) =
     Plain (JObj [(''transcript'', JNull), (''message'', JStr ''No transcript found'')]) \<and>
   fst (get_instructor_recordings demo_world ''ann'' None env0) =
     Plain (JObj [(''recordings'', JArr [])]) \<and>
   fst (get_recording_transcript demo_world ''r1'' env0) =
     Plain (JObj [(''transcript'', JNull), (''message'', JStr ''No transcript available'')])"
proof -
  let ?bad = "demo_world\<lparr>query_get := (\<lambda>k. None)\<rparr>"
  have b1: "fst (get_meeting_recordings_try ?bad ''m1'' env0) =
              Inl (ValueError ''Zoom client configuration not found'')"
    by (simp add: get_meeting_recordings_try_def run_defs)
  have b2: "fst (get_meeting_transcript_try ?bad ''m1'' env0) =
              Inl (ValueError ''Zoom client configuration not found'')"
    by (simp add: get_meeting_transcript_try_def run_defs)
  have b3: "fst (get_instructor_recordings_try ?bad ''ann'' None env0) =
              Inl (ValueError ''Zoom client configuration not found'')"
    by (simp add: get_instructor_recordings_try_def run_defs)
  have b4: "fst (get_recording_transcript_try ?bad ''r1'' env0) =
              Inl (ValueError ''Zoom client configuration not found'')"
    by (simp add: get_recording_transcript_try_def run_defs)
  have g1: "fst (get_meeting_recordings_try demo_world ''m1'' env0) = Inr (Plain (JObj []))"
    by (simp add: get_meeting_recordings_try_def run_defs)
  have g2: "fst (get_meeting_transcript_try demo_world ''m1'' env0) =
              Inr (Plain (JObj [(''transcript'', JNull), (''message'', JStr ''No transcript found'')]))"
    by (simp add: get_meeting_transcript_try_def get_meeting_recordings_def
        get_meeting_recordings_try_def except_Exception_def no_transcript_def run_defs)
  have g3: "fst (get_instructor_recordings_try demo_world ''ann'' None env0) =
              Inr (Plain (JObj [(''recordings'', JArr [])]))"
    by (simp add: get_instructor_recordings_try_def window_loop.simps window_step_def run_defs)
  have g4: "fst (get_recording_transcript_try demo_world ''r1'' env0) =
              Inr (Plain (JObj [(''transcript'', JNull),
                                (''message'', JStr ''No transcript available'')]))"
    by (simp add: get_recording_transcript_try_def get_recording_transcript_inner_def
        no_transcript_def run_defs)
  show ?thesis
    using exposed_operations_outcome [of ?bad "''m1''" env0 "''ann''" None "''r1''"]
      exposed_operations_outcome [of demo_world "''m1''" env0 "''ann''" None "''r1''"]
    by (simp add: b1 b2 b3 b4 g1 g2 g3 g4)
qed

text \<open>
  C9 as the claim states it fails in its last part: without a configuration row,
  \<^verbatim>\<open>get_meeting_recordings\<close> returns the failure payload with the status code 500 beside it.
\<close>

theorem status_code_counterexample:
  "fst (get_meeting_recordings (demo_world\<lparr>query_get := (\<lambda>k. None)\<rparr>) ''123'' env0) =
     WithStatus (JObj [(''error'', JStr ''Internal Server Error''),
                       (''message'', JStr ''Zoom client configuration not found'')]) 500"
  by (simp add: get_meeting_recordings_def get_meeting_recordings_try_def except_Exception_def
      verify_access_key_def get_zoom_client_def demo_world_def env0_def effect_def
      internal_server_error_def)

section \<open>The window scan\<close>

lemma scan_windows_loop:
  "scan_windows w i k c e d acc = Some (c', e', d', acc') \<Longrightarrow>
   window_loop w i c e d acc = window_loop w i c' e' d' acc'"
proof (induction k arbitrary: c e d acc)
  case 0
  then show ?case by simp
next
  case (Suc k)
  from Suc.prems have d: "start_date \<le> d" by (simp split: if_splits)
  obtain res c1 e1 where step: "window_step w i c e d = (res, c1, e1)"
    by (cases "window_step w i c e d") auto
  from Suc.prems d step obtain rs where res: "res = Inr (Extend rs)"
    and rest: "scan_windows w i k c1 e1 (d - days30) (acc @ rs) = Some (c', e', d', acc')"
    by (auto split: sum.splits window_outcome.splits)
  have "window_loop w i c e d acc = window_loop w i c1 e1 (d - days30) (acc @ rs)"
    using d step res by (simp add: window_loop.simps [of w i c e d acc])
  with Suc.IH [OF rest] show ?case by simp
qed

lemma window_step_unresolved:
  assumes "make_request w c e ''GET'' (''users/'' @ i @ ''/recordings'') (window_params w d) =
             (Inl (HTTPError 404 body m), c1, e1)"
    and "make_request w c1 e1 ''GET'' (''users/'' @ i) None =
             (Inl (HTTPError status2 body2 m2), c2, e2)"
  shows "window_step w i c e d = (Inr (Return no_zoom_user), c2, e2)"
  using assms by (simp add: window_step_def resolve_and_retry_def)


text \<open>
  C2. Let the scan have gone through any number \<open>k\<close> of windows, with whatever recordings
  they gave in \<open>all_recordings\<close>. If the request of the next window is answered with
  status 404 and the request that resolves the identifier fails with an HTTP error of any
  status, \<^verbatim>\<open>get_instructor_recordings\<close> returns the empty result with the message
  \<^verbatim>\<open>No Zoom user found\<close>: nothing of \<open>all_recordings\<close> is in it, and the operation returns
  a value, it does not raise.
\<close>

theorem unresolved_user_returns_empty:
  assumes "verify_access_key w e0 = (Inr (), e1)"
    and "get_zoom_client w e1 = (Inr client, e2)"
    and "scan_windows w instructor_id k client (effect [] e2) (clock w (tick e2)) [] =
           Some (c, e, current_date, all_recordings)"
    and "start_date \<le> current_date"
    and "make_request w c e ''GET'' (''users/'' @ instructor_id @ ''/recordings'')
           (window_params w current_date) = (Inl (HTTPError 404 body m), c1, e3)"
    and "make_request w c1 e3 ''GET'' (''users/'' @ instructor_id) None =
           (Inl (HTTPError status2 body2 m2), c2, e4)"
  shows "get_instructor_recordings w instructor_id course_id e0 =
           (Plain (JObj [(''recordings'', JArr []), (''message'', JStr ''No Zoom user found'')]),
            e4)"
proof -
  have "window_loop w instructor_id client (effect [] e2) (clock w (tick e2)) [] =
        window_loop w instructor_id c e current_date all_recordings"
    using assms(3) by (rule scan_windows_loop)
  also have "\<dots> = (Inr (Return no_zoom_user), c2, e4)"
    using assms(4) window_step_unresolved [OF assms(5) assms(6)]
    by (simp add: window_loop.simps [of w instructor_id c e current_date])
  finally show ?thesis
    using assms(1,2)
    by (simp add: get_instructor_recordings_def get_instructor_recordings_try_def
        except_Exception_def now_def no_zoom_user_def)
qed

theorem unresolved_user_returns_empty_witness:
  "fst (get_instructor_recordings unknown_user_world ''ann'' None env0) =
     Plain (JObj [(''recordings'', JArr []), (''message'', JStr ''No Zoom user found'')])"
proof -
  let ?w = unknown_user_world
  let ?tok = "TokenPost [(''grant_type'', ''account_credentials''), (''account_id'', ''account''),
                         (''client_id'', ''client''), (''client_secret'', ''secret'')]"
  let ?req1 = "ApiRequest ''GET'' ''https://api.zoom.us/v2/users/ann/recordings'' ''Bearer tok''
                 (Some [(''page_size'', JInt 300), (''from'', JStr ''0''), (''to'', JStr ''30'')])"
  let ?req2 = "ApiRequest ''GET'' ''https://api.zoom.us/v2/users/ann/recordings'' ''Bearer tok''
                 (Some [(''page_size'', JInt 300), (''from'', JStr ''-30''), (''to'', JStr ''0'')])"
  let ?req3 = "ApiRequest ''GET'' ''https://api.zoom.us/v2/users/ann'' ''Bearer tok'' None"
  let ?e1 = "\<lparr>tick = 1, trace = [QueryGet]\<rparr>"
  let ?e2 = "\<lparr>tick = 3, trace = [QueryGet, QueryGet, QueryFirst]\<rparr>"
  let ?client = "\<lparr>config = Some demo_config, access_token = JNull, token_expiry = None\<rparr>"
  let ?c = "\<lparr>config = Some demo_config, access_token = JStr ''tok'',
            token_expiry = Some 2595600000000\<rparr>"
  let ?e = "\<lparr>tick = 8, trace = [QueryGet, QueryGet, QueryFirst, QueryFirst, ?tok, ?req1]\<rparr>"
  let ?e3 = "\<lparr>tick = 10, trace = [QueryGet, QueryGet, QueryFirst, QueryFirst, ?tok, ?req1, ?req2]\<rparr>"
  let ?e4 = "\<lparr>tick = 12,
             trace = [QueryGet, QueryGet, QueryFirst, QueryFirst, ?tok, ?req1, ?req2, ?req3]\<rparr>"
  have h1: "verify_access_key ?w env0 = (Inr (), ?e1)"
    by (simp add: unknown_user_world_def run_defs)
  have h2: "get_zoom_client ?w ?e1 = (Inr ?client, ?e2)"
    by (simp add: unknown_user_world_def run_defs)
  have h3: "scan_windows ?w ''ann'' (Suc 0) ?client (effect [] ?e2) (clock ?w (tick ?e2)) [] =
              Some (?c, ?e, 0, [JObj [(''id'', JInt 7)]])"
    by (simp add: unknown_user_world_def window_step_def run_defs)
  have h4: "start_date \<le> 0" by (simp add: start_date_def)
  have h5: "make_request ?w ?c ?e ''GET'' (''users/'' @ ''ann'' @ ''/recordings'')
              (window_params ?w 0) =
              (Inl (HTTPError 404 (Inr (JObj [(''code'', JInt 1001)])) ''404 Client Error: Not Found''),
               ?c, ?e3)"
    by (simp add: unknown_user_world_def not_found_def run_defs)
  have h6: "make_request ?w ?c ?e3 ''GET'' (''users/'' @ ''ann'') None =
              (Inl (HTTPError 404 (Inr (JObj [(''code'', JInt 1001)])) ''404 Client Error: Not Found''),
               ?c, ?e4)"
    by (simp add: unknown_user_world_def not_found_def run_defs)
  show ?thesis
    using unresolved_user_returns_empty [OF h1 h2 h3 h4 h5 h6, of None] by simp
qed













section \<open>The course filter\<close>

lemma py_get_other: "py_get obj k d = Inr v \<Longrightarrow> \<exists>v'. py_get obj k' d' = Inr v'"
  by (cases obj) (auto split: option.splits)

lemma meeting_report_skip:
  assumes "py_get recording ''id'' JNull = Inr meeting_id"
    and "make_request w client e ''GET'' (''report/meetings/'' @ py_str (py_repr w) meeting_id) None =
           (Inl (HTTPError status (Inr error_response) m), client1, e1)"
    and "status \<noteq> 404 \<or> (\<exists>code. py_get error_response ''code'' JNull = Inr code \<and> code \<noteq> JInt 3001)"
  shows "meeting_report w recording client e = (Inr None, client1, e1)"
proof -
  obtain uuid where u: "py_get recording ''uuid'' (JStr []) = Inr uuid"
    using py_get_other [OF assms(1)] by blast
  obtain topic where t: "py_get recording ''topic'' (JStr ''No topic'') = Inr topic"
    using py_get_other [OF assms(1)] by blast
  show ?thesis
    using assms u t by (auto simp: meeting_report_def)
qed

lemma meeting_report_retry_skip:
  assumes "py_get recording ''id'' JNull = Inr meeting_id"
    and "py_get recording ''uuid'' (JStr []) = Inr uuid"
    and "make_request w client e ''GET'' (''report/meetings/'' @ py_str (py_repr w) meeting_id) None =
           (Inl (HTTPError 404 (Inr error_response) m), client1, e1)"
    and "py_get error_response ''code'' JNull = Inr (JInt 3001)"
    and "make_request w client1 e1 ''GET'' (''report/meetings/'' @ py_str (py_repr w) uuid) None =
           (Inl (HTTPError status2 body2 m2), client2, e2)"
  shows "meeting_report w recording client e = (Inr None, client2, e2)"
proof -
  obtain topic where t: "py_get recording ''topic'' (JStr ''No topic'') = Inr topic"
    using py_get_other [OF assms(1)] by blast
  show ?thesis
    using assms t by (simp add: meeting_report_def)
qed

lemma meeting_report_transport:
  assumes "py_get recording ''id'' JNull = Inr meeting_id"
    and "make_request w client e ''GET'' (''report/meetings/'' @ py_str (py_repr w) meeting_id) None =
           (Inl (RequestException m), client1, e1)"
  shows "meeting_report w recording client e = (Inl (RequestException m), client1, e1)"
proof -
  obtain uuid where u: "py_get recording ''uuid'' (JStr []) = Inr uuid"
    using py_get_other [OF assms(1)] by blast
  obtain topic where t: "py_get recording ''topic'' (JStr ''No topic'') = Inr topic"
    using py_get_other [OF assms(1)] by blast
  show ?thesis
    using assms u t by (simp add: meeting_report_def)
qed

text \<open>
  C1, as the code has it. The loop over the recordings catches \<open>HTTPError\<close> and nothing
  else. For a recording that is a dictionary, the report request of which fails with an
  HTTP status and a body that decodes, only that recording is skipped (the loop goes on with
  the remaining recordings and with the entries gathered so far) in each of these cases:
  the status is not 404; the status is 404 and the decoded body is a dictionary whose
  \<^verbatim>\<open>code\<close> is not 3001; the status is 404, the code is 3001, and the second request, by
  UUID, fails with an HTTP status too. A network-level failure of the report request is not
  caught: the loop ends with that exception, and the remaining recordings are not looked at.
\<close>

theorem report_errors_in_filter_loop:
  assumes "py_get recording ''id'' JNull = Inr meeting_id"
    and "py_get recording ''uuid'' (JStr []) = Inr uuid"
  shows
    "(make_request w client e ''GET'' (''report/meetings/'' @ py_str (py_repr w) meeting_id) None =
        (Inl (HTTPError status (Inr error_response) m), client1, e1) \<and>
      (status \<noteq> 404 \<or>
       (\<exists>code. py_get error_response ''code'' JNull = Inr code \<and> code \<noteq> JInt 3001))
      \<longrightarrow> filter_loop w course_id (recording # rest) client e filtered_recordings =
           filter_loop w course_id rest client1 e1 filtered_recordings) \<and>
     (make_request w client e ''GET'' (''report/meetings/'' @ py_str (py_repr w) meeting_id) None =
        (Inl (HTTPError 404 (Inr error_response) m), client1, e1) \<and>
      py_get error_response ''code'' JNull = Inr (JInt 3001) \<and>
      make_request w client1 e1 ''GET'' (''report/meetings/'' @ py_str (py_repr w) uuid) None =
        (Inl (HTTPError status2 body2 m2), client2, e2)
      \<longrightarrow> filter_loop w course_id (recording # rest) client e filtered_recordings =
           filter_loop w course_id rest client2 e2 filtered_recordings) \<and>
     (make_request w client e ''GET'' (''report/meetings/'' @ py_str (py_repr w) meeting_id) None =
        (Inl (RequestException m), client1, e1)
      \<longrightarrow> filter_loop w course_id (recording # rest) client e filtered_recordings =
           (Inl (RequestException m), client1, e1))"
proof (intro conjI impI)
  assume "make_request w client e ''GET'' (''report/meetings/'' @ py_str (py_repr w) meeting_id) None =
        (Inl (HTTPError status (Inr error_response) m), client1, e1) \<and>
      (status \<noteq> 404 \<or>
       (\<exists>code. py_get error_response ''code'' JNull = Inr code \<and> code \<noteq> JInt 3001))"
  then have "meeting_report w recording client e = (Inr None, client1, e1)"
    using meeting_report_skip [OF assms(1)] by blast
  then show "filter_loop w course_id (recording # rest) client e filtered_recordings =
           filter_loop w course_id rest client1 e1 filtered_recordings"
    by simp
next
  assume "make_request w client e ''GET'' (''report/meetings/'' @ py_str (py_repr w) meeting_id) None =
        (Inl (HTTPError 404 (Inr error_response) m), client1, e1) \<and>
      py_get error_response ''code'' JNull = Inr (JInt 3001) \<and>
      make_request w client1 e1 ''GET'' (''report/meetings/'' @ py_str (py_repr w) uuid) None =
        (Inl (HTTPError status2 body2 m2), client2, e2)"
  then have "meeting_report w recording client e = (Inr None, client2, e2)"
    using meeting_report_retry_skip [OF assms(1) assms(2)] by blast
  then show "filter_loop w course_id (recording # rest) client e filtered_recordings =
           filter_loop w course_id rest client2 e2 filtered_recordings"
    by simp
next
  assume "make_request w client e ''GET'' (''report/meetings/'' @ py_str (py_repr w) meeting_id) None =
        (Inl (RequestException m), client1, e1)"
  then have "meeting_report w recording client e = (Inl (RequestException m), client1, e1)"
    using meeting_report_transport [OF assms(1)] by blast
  then show "filter_loop w course_id (recording # rest) client e filtered_recordings =
           (Inl (RequestException m), client1, e1)"
    by simp
qed

theorem report_errors_in_filter_loop_witness:
  "filter_loop (report_world (HTTPError 500 (Inr (JObj [])) ''500 Server Error'')) None
     [JObj [(''id'', JStr ''a'')], JObj [(''id'', JStr ''b'')]]
     \<lparr>config = None, access_token = JStr ''tok'', token_expiry = Some 10\<rparr> env0 [] =
   filter_loop (report_world (HTTPError 500 (Inr (JObj [])) ''500 Server Error'')) None
     [JObj [(''id'', JStr ''b'')]]
     \<lparr>config = None, access_token = JStr ''tok'', token_expiry = Some 10\<rparr>
     \<lparr>tick = 2,
      trace = [ApiRequest ''GET'' ''https://api.zoom.us/v2/report/meetings/a'' ''Bearer tok'' None]\<rparr>
     [] \<and>
   filter_loop (report_world (HTTPError 404 (Inr (JObj [(''code'', JInt 3001)])) ''404 Not Found''))
     None [JObj [(''id'', JStr ''a''), (''uuid'', JStr ''a'')], JObj [(''id'', JStr ''b'')]]
     \<lparr>config = None, access_token = JStr ''tok'', token_expiry = Some 10\<rparr> env0 [] =
   filter_loop (report_world (HTTPError 404 (Inr (JObj [(''code'', JInt 3001)])) ''404 Not Found''))
     None [JObj [(''id'', JStr ''b'')]]
     \<lparr>config = None, access_token = JStr ''tok'', token_expiry = Some 10\<rparr>
     \<lparr>tick = 4,
      trace = [ApiRequest ''GET'' ''https://api.zoom.us/v2/report/meetings/a'' ''Bearer tok'' None,
               ApiRequest ''GET'' ''https://api.zoom.us/v2/report/meetings/a'' ''Bearer tok'' None]\<rparr>
     [] \<and>
   filter_loop (report_world (RequestException ''Connection reset by peer'')) None
     [JObj [(''id'', JStr ''a'')], JObj [(''id'', JStr ''b'')]]
     \<lparr>config = None, access_token = JStr ''tok'', token_expiry = Some 10\<rparr> env0 [] =
   (Inl (RequestException ''Connection reset by peer''),
    \<lparr>config = None, access_token = JStr ''tok'', token_expiry = Some 10\<rparr>,
    \<lparr>tick = 2,
     trace = [ApiRequest ''GET'' ''https://api.zoom.us/v2/report/meetings/a'' ''Bearer tok'' None]\<rparr>)"
proof -
  let ?c = "\<lparr>config = None, access_token = JStr ''tok'', token_expiry = Some 10\<rparr>"
  let ?req = "ApiRequest ''GET'' ''https://api.zoom.us/v2/report/meetings/a'' ''Bearer tok'' None"
  let ?e1 = "\<lparr>tick = 2, trace = [?req]\<rparr>"
  let ?e2 = "\<lparr>tick = 4, trace = [?req, ?req]\<rparr>"
  let ?h500 = "HTTPError 500 (Inr (JObj [])) ''500 Server Error''"
  let ?h404 = "HTTPError 404 (Inr (JObj [(''code'', JInt 3001)])) ''404 Not Found''"
  let ?tr = "RequestException ''Connection reset by peer''"
  have a: "make_request (report_world ?h500) ?c env0 ''GET''
             (''report/meetings/'' @ py_str (py_repr (report_world ?h500)) (JStr ''a'')) None =
           (Inl ?h500, ?c, ?e1)"
    by (simp add: report_world_def run_defs)
  have b1: "make_request (report_world ?h404) ?c env0 ''GET''
             (''report/meetings/'' @ py_str (py_repr (report_world ?h404)) (JStr ''a'')) None =
           (Inl ?h404, ?c, ?e1)"
    by (simp add: report_world_def run_defs)
  have b2: "make_request (report_world ?h404) ?c ?e1 ''GET''
             (''report/meetings/'' @ py_str (py_repr (report_world ?h404)) (JStr ''a'')) None =
           (Inl ?h404, ?c, ?e2)"
    by (simp add: report_world_def run_defs)
  have c: "make_request (report_world ?tr) ?c env0 ''GET''
             (''report/meetings/'' @ py_str (py_repr (report_world ?tr)) (JStr ''a'')) None =
           (Inl ?tr, ?c, ?e1)"
    by (simp add: report_world_def run_defs)
  show ?thesis
    using
      report_errors_in_filter_loop
        [of "JObj [(''id'', JStr ''a'')]" "JStr ''a''" "JStr []" "report_world ?h500" ?c env0
            500 "JObj []" "''500 Server Error''" ?c ?e1 None "[JObj [(''id'', JStr ''b'')]]" "[]"]
      report_errors_in_filter_loop
        [of "JObj [(''id'', JStr ''a''), (''uuid'', JStr ''a'')]" "JStr ''a''" "JStr ''a''"
            "report_world ?h404" ?c env0 404 "JObj [(''code'', JInt 3001)]" "''404 Not Found''"
            ?c ?e1 None "[JObj [(''id'', JStr ''b'')]]" "[]" 404
            "Inr (JObj [(''code'', JInt 3001)])" "''404 Not Found''" ?c ?e2]
      report_errors_in_filter_loop
        [of "JObj [(''id'', JStr ''a'')]" "JStr ''a''" "JStr []" "report_world ?tr" ?c env0
            _ _ "''Connection reset by peer''" ?c ?e1 None "[JObj [(''id'', JStr ''b'')]]" "[]"]
      a b1 b2 c
    by simp
qed

text \<open>
  C1 as the claim states it fails. With the two recordings \<open>a\<close> and \<open>b\<close>, a network-level
  failure of the report request of \<open>a\<close> makes the whole operation return the failure
  payload, and \<open>b\<close> is not returned; when the same request fails with an HTTP status
  instead, \<open>b\<close> is returned.
\<close>

theorem transport_error_counterexample:
  "fst (get_instructor_recordings (report_world (RequestException ''Connection reset by peer''))
          ''ann'' None env0) =
     WithStatus (JObj [(''error'', JStr ''Internal Server Error''),
                       (''message'', JStr ''Connection reset by peer'')]) 500 \<and>
   fst (get_instructor_recordings (report_world (HTTPError 500 (Inr (JObj [])) ''500 Server Error''))
          ''ann'' None env0) =
     Plain (JObj [(''recordings'',
                   JArr [JObj [(''id'', JStr ''b''), (''uuid'', JNull), (''topic'', JNull),
                               (''start_time'', JNull), (''duration'', JNull),
                               (''recording_files'', JArr [])]])])"
  by (simp add: get_instructor_recordings_def get_instructor_recordings_try_def
      except_Exception_def internal_server_error_def window_loop.simps window_step_def
      meeting_report_def include_recording_def recording_info_def report_world_def run_defs)

section \<open>Fetching a transcript\<close>

lemma first_transcript_none:
  "no_transcript_file files \<Longrightarrow> first_transcript files = Inr JNull"
  by (induction files rule: no_transcript_file.induct) (auto split: option.splits)

lemma recording_without_transcript:
  assumes "verify_access_key w e = (Inr (), e1)"
    and "get_zoom_client w e1 = (Inr client, e2)"
    and "make_request w client e2 ''GET'' (''recordings/'' @ recording_id) None =
           (Inr recording, client1, e3)"
    and "py_get recording ''recording_files'' (JArr []) = Inr (JArr files)"
    and "no_transcript_file files"
  shows "get_recording_transcript w recording_id e =
           (Plain (JObj [(''transcript'', JNull), (''message'', JStr ''No transcript available'')]),
            e3)"
  using assms first_transcript_none [OF assms(5)]
  by (simp add: get_recording_transcript_def get_recording_transcript_try_def
      get_recording_transcript_inner_def except_Exception_def no_transcript_def)

lemma meeting_without_transcript:
  assumes "verify_access_key w e = (Inr (), e1)"
    and "get_zoom_client w e1 = (Inr client, e2)"
    and "get_meeting_recordings w meeting_id e2 = (Plain recordings, e3)"
    and "py_get recordings ''recording_files'' (JArr []) = Inr (JArr files)"
    and "no_transcript_file files"
  shows "get_meeting_transcript w meeting_id e =
           (Plain (JObj [(''transcript'', JNull), (''message'', JStr ''No transcript found'')]),
            e3)"
  using assms first_transcript_none [OF assms(5)]
  by (simp add: get_meeting_transcript_def get_meeting_transcript_try_def
      except_Exception_def no_transcript_def)

lemma meeting_transcript_without_url:
  assumes "verify_access_key w e = (Inr (), e1)"
    and "get_zoom_client w e1 = (Inr client, e2)"
    and "get_meeting_recordings w meeting_id e2 = (Plain recordings, e3)"
    and "py_get recordings ''recording_files'' (JArr []) = Inr (JArr files)"
    and "first_transcript files = Inr transcript_file"
    and "py_truthy transcript_file"
    and "py_get transcript_file ''download_url'' JNull = Inr transcript_url"
    and "\<not> py_truthy transcript_url"
  shows "get_meeting_transcript w meeting_id e =
           (Plain (JObj [(''transcript'', JNull),
                         (''message'', JStr ''No transcript URL available'')]), e3)"
  using assms
  by (simp add: get_meeting_transcript_def get_meeting_transcript_try_def
      except_Exception_def no_transcript_def)

lemma meeting_transcript_download_failed:
  assumes "verify_access_key w e = (Inr (), e1)"
    and "get_zoom_client w e1 = (Inr client, e2)"
    and "get_meeting_recordings w meeting_id e2 = (Plain recordings, e3)"
    and "py_get recordings ''recording_files'' (JArr []) = Inr (JArr files)"
    and "first_transcript files = Inr transcript_file"
    and "py_truthy transcript_file"
    and "py_get transcript_file ''download_url'' JNull = Inr transcript_url"
    and "py_truthy transcript_url"
    and "get_access_token w client e3 = (Inr tok, client1, e4)"
    and "get_transcript_content w transcript_url tok e4 = (Inr None, e5)"
  shows "get_meeting_transcript w meeting_id e =
           (Plain (JObj [(''transcript'', JNull),
                         (''message'', JStr ''Failed to retrieve transcript content'')]), e5)"
  using assms
  by (simp add: get_meeting_transcript_def get_meeting_transcript_try_def
      except_Exception_def no_transcript_def)

text \<open>
  C8. For a recording without a file of type TRANSCRIPT both operations return the
  no-transcript result (the lemmas above), and \<^verbatim>\<open>get_meeting_transcript\<close> has a message of its
  own for each of the three failure points. \<^verbatim>\<open>get_recording_transcript\<close> has none for the
  second one: it reads \<^verbatim>\<open>transcript_file["download_url"]\<close> where the other handler uses
  \<^verbatim>\<open>.get("download_url")\<close> and tests the result. On a recording whose transcript file has no
  download URL it raises \<open>KeyError\<close> and returns the failure payload with status 500; the
  other handler, on the same recording, returns the message \<^verbatim>\<open>No transcript URL available\<close>.
\<close>

theorem recording_transcript_without_url:
  "fst (get_recording_transcript no_url_world ''r1'' env0) =
     WithStatus (JObj [(''error'', JStr ''Internal Server Error''),
                       (''message'', JStr (apos @ ''download_url'' @ apos))]) 500 \<and>
   fst (get_meeting_transcript no_url_world ''r1'' env0) =
     Plain (JObj [(''transcript'', JNull), (''message'', JStr ''No transcript URL available'')])"
  by (simp add: get_recording_transcript_def get_recording_transcript_try_def
      get_recording_transcript_inner_def get_meeting_transcript_def
      get_meeting_transcript_try_def get_meeting_recordings_def get_meeting_recordings_try_def
      except_Exception_def internal_server_error_def no_transcript_def no_url_world_def
      apos_def run_defs)


end
